theory Spec2Isabelle
  imports Complex_Main "HOL-Library.AList"
begin

section \<open>Pairs mean-reversion backtester: the model\<close>

text \<open>
  This theory embeds \<^verbatim>\<open>src/v2/backtest_v2.py\<close> (class \<^verbatim>\<open>Backtester\<close>).

  Numbers. A Python/NumPy float is idealised: a finite value is a \<^typ>\<open>real\<close> with exact
  arithmetic; the two infinities and NaN (pandas' missing value) are values of their own,
  with the IEEE rules for them (type \<open>pyfloat\<close> below). Rounding, overflow and the sign of
  zero are outside the model. Configuration numbers are finite, and so is every value of
  a row that survives the final \<^verbatim>\<open>dropna()\<close> of \<^verbatim>\<open>prepare_data\<close> (lemma
  \<open>signal_row_dropna\<close>), so they are plain reals.

  Errors. Every \<^verbatim>\<open>raise\<close> the modelled lines can reach is a value \<open>Inl e\<close> of a sum type.
\<close>

subsection \<open>Configuration (the constructor's fields)\<close>

datatype py_error = ZeroDivisionError | KeyError | TypeError | ValueError | LinAlgError

record config =
  z_entry :: real
  z_exit :: real
  spread_window :: int
  hedge_window :: int
  initial_capital :: real
  notional_per_leg :: real
  beta_neutral :: bool
  cost_bps :: real
  use_log_price_spread :: bool
  max_hold_bars :: "int option"
  stop_z :: "real option"

text \<open>The defaults of \<^verbatim>\<open>__init__\<close> (lines 19--29).\<close>

definition default_config :: config where
  "default_config =
     \<lparr> z_entry = 12 / 10, z_exit = 2 / 10, spread_window = 300, hedge_window = 300,
       initial_capital = 1000000, notional_per_leg = 100000, beta_neutral = True,
       cost_bps = 0, use_log_price_spread = True, max_hold_bars = None, stop_z = None \<rparr>"

subsection \<open>Signal rows: a row of the frame returned by \<^verbatim>\<open>prepare_data\<close>\<close>

text \<open>
  After the final \<^verbatim>\<open>dropna()\<close> no column of a row is NaN, so the fields are reals.
  The columns \<^verbatim>\<open>x\<close>, \<^verbatim>\<open>y\<close>, \<^verbatim>\<open>z\<close> are the fields \<open>xval\<close>, \<open>yval\<close>, \<open>zscore\<close>; \<open>ts\<close> is the
  row's index label (its timestamp).
\<close>

record sigrow =
  ts :: nat
  price_a :: real
  price_b :: real
  xval :: real
  yval :: real
  beta :: real
  alpha :: real
  spread :: real
  spread_mean :: real
  spread_std :: real
  zscore :: real

subsection \<open>The bar loop of \<^verbatim>\<open>run\<close> (lines 103--180)\<close>

text \<open>The loop's local variables, lines 103--114.\<close>

record bt_state =
  capital :: real
  position :: int
  entry_idx :: "nat option"
  sh_a :: real
  sh_b :: real
  equity_series :: "real list"
  trade_count :: int

definition init_state :: "config \<Rightarrow> bt_state" where
  "init_state cfg =
     \<lparr> capital = initial_capital cfg, position = 0, entry_idx = None,
       sh_a = 0, sh_b = 0, equity_series = [], trade_count = 0 \<rparr>"

text \<open>\<^verbatim>\<open>_trade_cost\<close>, lines 94--98.\<close>

definition trade_cost :: "config \<Rightarrow> real" where
  "trade_cost cfg =
     (if cost_bps cfg \<le> 0 then 0
      else 2 * notional_per_leg cfg * (cost_bps cfg / 10000))"

text \<open>
  \<^verbatim>\<open>df.index.get_loc(t)\<close> on an index without duplicates: the position of the label, and
  \<^verbatim>\<open>KeyError\<close> when the label is absent.
\<close>

fun get_loc :: "nat list \<Rightarrow> nat \<Rightarrow> py_error + nat" where
  "get_loc [] t = Inl KeyError"
| "get_loc (u # us) t =
     (if u = t then Inr 0
      else (case get_loc us t of Inl e \<Rightarrow> Inl e | Inr k \<Rightarrow> Inr (Suc k)))"

text \<open>Line 123: the optional stop.\<close>

definition stop_out :: "config \<Rightarrow> real \<Rightarrow> bool" where
  "stop_out cfg z = (case stop_z cfg of None \<Rightarrow> False | Some s \<Rightarrow> \<bar>z\<bar> \<ge> s)"

text \<open>
  Lines 126--130: the max-hold check. It reads \<open>position\<close> and \<open>entry_idx\<close> as they are at
  the start of the bar, before the entry block runs.
\<close>

definition held_too_long :: "config \<Rightarrow> nat list \<Rightarrow> bt_state \<Rightarrow> nat \<Rightarrow> py_error + bool" where
  "held_too_long cfg idx st t =
     (if position st \<noteq> 0 then
        (case max_hold_bars cfg of
           None \<Rightarrow> Inr False
         | Some m \<Rightarrow>
            (case entry_idx st of
               None \<Rightarrow> Inr False
             | Some e \<Rightarrow>
                (case get_loc idx t of
                   Inl err \<Rightarrow> Inl err
                 | Inr lt \<Rightarrow>
                    (case get_loc idx e of
                       Inl err \<Rightarrow> Inl err
                     | Inr le \<Rightarrow> Inr (int lt - int le \<ge> m)))))
      else Inr False)"

text \<open>Lines 134--137: the direction chosen from a flat position (0 when no signal).\<close>

definition entry_signal :: "config \<Rightarrow> real \<Rightarrow> int" where
  "entry_signal cfg z =
     (if z > z_entry cfg then - 1 else if z < - z_entry cfg then 1 else 0)"

text \<open>
  Lines 133--151: the entry block. The prices are Python floats
  (\<^verbatim>\<open>float(row["price_a"])\<close>), so a division by a zero price raises.
\<close>

definition entry_block :: "config \<Rightarrow> bt_state \<Rightarrow> sigrow \<Rightarrow> py_error + bt_state" where
  "entry_block cfg st row =
     (if position st = 0 then
        (let pos = entry_signal cfg (zscore row) in
         if pos \<noteq> 0 then
           (if price_a row = 0 \<or> price_b row = 0 then Inl ZeroDivisionError
            else
              (let scale = (if beta_neutral cfg then \<bar>beta row\<bar> else 1) in
               Inr (st\<lparr> position := pos,
                        sh_a := (notional_per_leg cfg / price_a row) * real_of_int pos,
                        sh_b := - (notional_per_leg cfg * scale / price_b row) * real_of_int pos,
                        capital := capital st - trade_cost cfg,
                        trade_count := trade_count st + 1,
                        entry_idx := Some (ts row) \<rparr>)))
         else Inr st)
      else Inr st)"

text \<open>Lines 163--168: mark-to-market and the bar's equity.\<close>

definition mtm :: "bt_state \<Rightarrow> sigrow \<Rightarrow> real" where
  "mtm st row = sh_a st * price_a row + sh_b st * price_b row"

definition equity_of :: "bt_state \<Rightarrow> sigrow \<Rightarrow> real" where
  "equity_of st row = capital st + mtm st row"

text \<open>
  Line 172: the exit test. \<open>st\<close> is the state after the entry block (the test reads the
  current \<open>position\<close>); \<open>htl\<close> is the value computed at lines 126--130.
\<close>

definition exit_triggered :: "config \<Rightarrow> bt_state \<Rightarrow> sigrow \<Rightarrow> bool \<Rightarrow> bool" where
  "exit_triggered cfg st row htl =
     (position st \<noteq> 0 \<and> (\<bar>zscore row\<bar> < z_exit cfg \<or> stop_out cfg (zscore row) \<or> htl))"

text \<open>Lines 174--180: realise and flatten.\<close>

definition realize :: "config \<Rightarrow> bt_state \<Rightarrow> real \<Rightarrow> bt_state" where
  "realize cfg st equity =
     st\<lparr> capital := equity - trade_cost cfg, position := 0, sh_a := 0, sh_b := 0,
         entry_idx := None \<rparr>"

text \<open>One iteration of the loop, lines 116--180, in the order of the source.\<close>

definition bar :: "config \<Rightarrow> nat list \<Rightarrow> bt_state \<Rightarrow> sigrow \<Rightarrow> py_error + bt_state" where
  "bar cfg idx st row =
     (case held_too_long cfg idx st (ts row) of
        Inl e \<Rightarrow> Inl e
      | Inr htl \<Rightarrow>
         (case entry_block cfg st row of
            Inl e \<Rightarrow> Inl e
          | Inr st1 \<Rightarrow>
             (let equity = equity_of st1 row;
                  st2 = st1\<lparr> equity_series := equity_series st1 @ [equity] \<rparr>
              in Inr (if exit_triggered cfg st2 row htl then realize cfg st2 equity else st2))))"

fun bars :: "config \<Rightarrow> nat list \<Rightarrow> bt_state \<Rightarrow> sigrow list \<Rightarrow> py_error + bt_state" where
  "bars cfg idx st [] = Inr st"
| "bars cfg idx st (row # rows) =
     (case bar cfg idx st row of
        Inl e \<Rightarrow> Inl e
      | Inr st' \<Rightarrow> bars cfg idx st' rows)"

text \<open>
  The loop over the prepared frame \<open>df\<close>: \<^verbatim>\<open>for t, row in df.iterrows()\<close>, with
  \<open>df.index\<close> the labels of its rows.
\<close>

definition backtest :: "config \<Rightarrow> sigrow list \<Rightarrow> py_error + bt_state" where
  "backtest cfg df = bars cfg (map ts df) (init_state cfg) df"

text \<open>
  The states at the start of each bar the loop reaches, and the bars on which the entry
  block opens a position (flat before it, not flat after it).
\<close>

fun pre_states :: "config \<Rightarrow> nat list \<Rightarrow> bt_state \<Rightarrow> sigrow list \<Rightarrow> bt_state list" where
  "pre_states cfg idx st [] = []"
| "pre_states cfg idx st (row # rows) =
     st # (case bar cfg idx st row of
             Inl e \<Rightarrow> []
           | Inr st' \<Rightarrow> pre_states cfg idx st' rows)"

definition entry_performed :: "config \<Rightarrow> bt_state \<Rightarrow> sigrow \<Rightarrow> bool" where
  "entry_performed cfg st row =
     (case entry_block cfg st row of
        Inl e \<Rightarrow> False
      | Inr st1 \<Rightarrow> position st = 0 \<and> position st1 \<noteq> 0)"

definition entries :: "config \<Rightarrow> nat list \<Rightarrow> bt_state \<Rightarrow> sigrow list \<Rightarrow> nat" where
  "entries cfg idx st rows =
     length (filter (\<lambda>(s, r). entry_performed cfg s r) (zip (pre_states cfg idx st rows) rows))"

subsection \<open>Floats with infinities and NaN\<close>

text \<open>
  A float that is not NaN is \<open>-inf\<close>, a finite real or \<open>+inf\<close>; a float is one of those or
  NaN (\<open>None\<close>). The operations follow IEEE on the special values: \<open>inf - inf\<close>, \<open>0 * inf\<close>,
  \<open>0 / 0\<close>, \<open>inf / inf\<close> and the logarithm of a negative number are NaN; \<open>c / 0\<close> is an
  infinity with the sign of \<open>c \<noteq> 0\<close>; \<open>log 0\<close> is \<open>-inf\<close>.
\<close>

datatype xfloat = NInf | Fin real | PInf

type_synonym pyfloat = "xfloat option"

fun xneg :: "xfloat \<Rightarrow> xfloat" where
  "xneg NInf = PInf"
| "xneg (Fin a) = Fin (- a)"
| "xneg PInf = NInf"

fun xadd :: "xfloat \<Rightarrow> xfloat \<Rightarrow> pyfloat" where
  "xadd (Fin a) (Fin b) = Some (Fin (a + b))"
| "xadd (Fin a) PInf = Some PInf"
| "xadd (Fin a) NInf = Some NInf"
| "xadd PInf (Fin b) = Some PInf"
| "xadd NInf (Fin b) = Some NInf"
| "xadd PInf PInf = Some PInf"
| "xadd NInf NInf = Some NInf"
| "xadd PInf NInf = None"
| "xadd NInf PInf = None"

fun xsign :: "xfloat \<Rightarrow> int" where
  "xsign NInf = - 1"
| "xsign (Fin a) = (if a < 0 then - 1 else if a = 0 then 0 else 1)"
| "xsign PInf = 1"

fun xmul :: "xfloat \<Rightarrow> xfloat \<Rightarrow> pyfloat" where
  "xmul (Fin a) (Fin b) = Some (Fin (a * b))"
| "xmul u v =
     (if xsign u * xsign v = 0 then None
      else if 0 < xsign u * xsign v then Some PInf else Some NInf)"

fun xdiv :: "xfloat \<Rightarrow> xfloat \<Rightarrow> pyfloat" where
  "xdiv (Fin a) (Fin b) =
     (if b \<noteq> 0 then Some (Fin (a / b))
      else if a = 0 then None else if 0 < a then Some PInf else Some NInf)"
| "xdiv (Fin a) PInf = Some (Fin 0)"
| "xdiv (Fin a) NInf = Some (Fin 0)"
| "xdiv PInf (Fin b) = (if 0 \<le> b then Some PInf else Some NInf)"
| "xdiv NInf (Fin b) = (if 0 \<le> b then Some NInf else Some PInf)"
| "xdiv PInf PInf = None"
| "xdiv PInf NInf = None"
| "xdiv NInf PInf = None"
| "xdiv NInf NInf = None"

fun xlog :: "xfloat \<Rightarrow> pyfloat" where
  "xlog (Fin a) = (if 0 < a then Some (Fin (ln a)) else if a = 0 then Some NInf else None)"
| "xlog PInf = Some PInf"
| "xlog NInf = None"

fun xsqrt :: "xfloat \<Rightarrow> pyfloat" where
  "xsqrt (Fin a) = (if 0 \<le> a then Some (Fin (sqrt a)) else None)"
| "xsqrt PInf = Some PInf"
| "xsqrt NInf = None"

definition fadd :: "pyfloat \<Rightarrow> pyfloat \<Rightarrow> pyfloat" where
  "fadd a b = (case (a, b) of (Some u, Some v) \<Rightarrow> xadd u v | _ \<Rightarrow> None)"

definition fsub :: "pyfloat \<Rightarrow> pyfloat \<Rightarrow> pyfloat" where
  "fsub a b = (case (a, b) of (Some u, Some v) \<Rightarrow> xadd u (xneg v) | _ \<Rightarrow> None)"

definition fmul :: "pyfloat \<Rightarrow> pyfloat \<Rightarrow> pyfloat" where
  "fmul a b = (case (a, b) of (Some u, Some v) \<Rightarrow> xmul u v | _ \<Rightarrow> None)"

definition fdiv :: "pyfloat \<Rightarrow> pyfloat \<Rightarrow> pyfloat" where
  "fdiv a b = (case (a, b) of (Some u, Some v) \<Rightarrow> xdiv u v | _ \<Rightarrow> None)"

definition flog :: "pyfloat \<Rightarrow> pyfloat" where
  "flog a = (case a of Some u \<Rightarrow> xlog u | None \<Rightarrow> None)"

definition fsqrt :: "pyfloat \<Rightarrow> pyfloat" where
  "fsqrt a = (case a of Some u \<Rightarrow> xsqrt u | None \<Rightarrow> None)"

text \<open>A finite real or NaN as a float, and the finite value of a float if it has one.\<close>

definition of_fin :: "real option \<Rightarrow> pyfloat" where
  "of_fin a = map_option Fin a"

fun fin_of :: "pyfloat \<Rightarrow> real option" where
  "fin_of (Some (Fin a)) = Some a"
| "fin_of _ = None"

text \<open>\<^verbatim>\<open>Series.dropna()\<close> on one column: NaN is dropped, an infinity is not.\<close>

definition dropna :: "pyfloat list \<Rightarrow> xfloat list" where
  "dropna xs = List.map_filter (\<lambda>v. v) xs"

text \<open>
  The arithmetic mean and the population standard deviation (\<^verbatim>\<open>ddof=0\<close>) of finite
  values, NaN on no values: what a rolling window computes.
\<close>

definition mean :: "real list \<Rightarrow> real option" where
  "mean vs = (if vs = [] then None else Some (sum_list vs / real (length vs)))"

definition pop_std :: "real list \<Rightarrow> real option" where
  "pop_std vs =
     (if vs = [] then None
      else (let m = sum_list vs / real (length vs)
            in Some (sqrt (sum_list (map (\<lambda>v. (v - m)\<^sup>2) vs) / real (length vs)))))"

text \<open>
  \<^verbatim>\<open>Series.mean()\<close> and \<^verbatim>\<open>Series.std(ddof=0)\<close> on values without NaN, as pandas computes
  them: the sum over the count, and the root of the mean squared deviation from that
  average. An infinity makes the average infinite or NaN and the deviation NaN.
\<close>

fun fsum :: "pyfloat list \<Rightarrow> pyfloat" where
  "fsum [] = Some (Fin 0)"
| "fsum (v # vs) = fadd v (fsum vs)"

definition series_mean :: "xfloat list \<Rightarrow> pyfloat" where
  "series_mean vs =
     (if vs = [] then None else fdiv (fsum (map Some vs)) (Some (Fin (real (length vs)))))"

definition series_std :: "xfloat list \<Rightarrow> pyfloat" where
  "series_std vs =
     (if vs = [] then None
      else (let avg = series_mean vs;
                sqr = map (\<lambda>v. fmul (fsub avg (Some v)) (fsub avg (Some v))) vs
            in fsqrt (fdiv (fsum sqr) (Some (Fin (real (length vs)))))))"

subsection \<open>\<^verbatim>\<open>prepare_data\<close> (lines 46--92)\<close>

text \<open>
  An input frame is its index with its \<^verbatim>\<open>close\<close> column; labels are unique and
  \<^verbatim>\<open>Index.intersection\<close> keeps the labels of \<^verbatim>\<open>df_a\<close> that \<^verbatim>\<open>df_b\<close> has, in order.
  Lines 47--51.
\<close>

type_synonym series = "(nat \<times> pyfloat) list"

definition loc_close :: "series \<Rightarrow> nat \<Rightarrow> pyfloat" where
  "loc_close df t = (case map_of df t of None \<Rightarrow> None | Some c \<Rightarrow> c)"

definition index_intersection :: "series \<Rightarrow> series \<Rightarrow> nat list" where
  "index_intersection df_a df_b = filter (\<lambda>t. t \<in> set (map fst df_b)) (map fst df_a)"

text \<open>\<^verbatim>\<open>shift(1)\<close>: every value moves one row down, the first row is NaN.\<close>

definition shift1 :: "pyfloat list \<Rightarrow> pyfloat list" where
  "shift1 xs = (if xs = [] then [] else None # butlast xs)"

text \<open>Lines 53--60: the regression columns \<open>x\<close> (from B) and \<open>y\<close> (from A).\<close>

definition x_col :: "config \<Rightarrow> pyfloat list \<Rightarrow> pyfloat list" where
  "x_col cfg pb =
     (if use_log_price_spread cfg then map flog pb
      else map (\<lambda>(c, p). flog (fdiv c p)) (zip pb (shift1 pb)))"

definition y_col :: "config \<Rightarrow> pyfloat list \<Rightarrow> pyfloat list" where
  "y_col cfg pa =
     (if use_log_price_spread cfg then map flog pa
      else map (\<lambda>(c, p). flog (fdiv c p)) (zip pa (shift1 pa)))"

text \<open>
  A row of the frame after the \<^verbatim>\<open>dropna()\<close> of line 62: no NaN left, but a zero close
  has left a \<open>-inf\<close> in \<open>x\<close> or \<open>y\<close> (log-price mode), and such a row is kept.
\<close>

record xy_row =
  xy_ts :: nat
  xy_price_a :: xfloat
  xy_price_b :: xfloat
  xy_x :: xfloat
  xy_y :: xfloat

definition xy_frame :: "config \<Rightarrow> series \<Rightarrow> series \<Rightarrow> xy_row list" where
  "xy_frame cfg df_a df_b =
     (let idx = index_intersection df_a df_b;
          pa = map (loc_close df_a) idx;
          pb = map (loc_close df_b) idx;
          xs = x_col cfg pb;
          ys = y_col cfg pa
      in List.map_filter
           (\<lambda>i. case (pa ! i, pb ! i, xs ! i, ys ! i) of
                   (Some a, Some b, Some x, Some y) \<Rightarrow>
                     Some \<lparr> xy_ts = idx ! i, xy_price_a = a, xy_price_b = b, xy_x = x, xy_y = y \<rparr>
                 | _ \<Rightarrow> None)
           [0..<length idx])"

text \<open>\<^verbatim>\<open>.iloc[lo:hi]\<close> for \<open>0 \<le> lo\<close>.\<close>

definition iloc :: "nat \<Rightarrow> nat \<Rightarrow> 'a list \<Rightarrow> 'a list" where
  "iloc lo hi xs = take (hi - lo) (drop lo xs)"

text \<open>
  Lines 65--77: the rolling hedge regression. \<open>polyfit xs ys\<close> stands for
  \<^verbatim>\<open>np.polyfit(x, y, 1)\<close>, NumPy's degree-1 least-squares fit: it returns \<open>(beta, alpha)\<close>,
  each finite or NaN, or raises (\<^verbatim>\<open>LinAlgError\<close> when the decomposition does not
  converge). It is a parameter of the model. The entry for row \<open>i\<close> is NaN for
  \<open>i < hedge_window\<close> and otherwise the outcome of the fit over rows
  \<open>i - hedge_window, ..., i - 1\<close>.
\<close>

type_synonym fit = "xfloat list \<Rightarrow> xfloat list \<Rightarrow> py_error + real option \<times> real option"

definition hedge_fit ::
  "fit \<Rightarrow> nat \<Rightarrow> xfloat list \<Rightarrow> xfloat list \<Rightarrow> (py_error + real option \<times> real option) list" where
  "hedge_fit polyfit hw xs ys =
     map (\<lambda>i. if i < hw then Inr (None, None)
              else polyfit (iloc (i - hw) i xs) (iloc (i - hw) i ys))
         [0..<length xs]"

text \<open>The loop stops at the first fit that raises.\<close>

fun first_error :: "(py_error + 'a) list \<Rightarrow> py_error option" where
  "first_error [] = None"
| "first_error (Inl e # rs) = Some e"
| "first_error (Inr v # rs) = first_error rs"

text \<open>Lines 79--80: the columns \<open>beta\<close> and \<open>alpha\<close> (when no fit has raised).\<close>

definition beta_col :: "fit \<Rightarrow> config \<Rightarrow> xy_row list \<Rightarrow> real option list" where
  "beta_col polyfit cfg rows =
     map (\<lambda>r. case r of Inl e \<Rightarrow> None | Inr (b, a) \<Rightarrow> b)
       (hedge_fit polyfit (nat (hedge_window cfg)) (map xy_x rows) (map xy_y rows))"

definition alpha_col :: "fit \<Rightarrow> config \<Rightarrow> xy_row list \<Rightarrow> real option list" where
  "alpha_col polyfit cfg rows =
     map (\<lambda>r. case r of Inl e \<Rightarrow> None | Inr (b, a) \<Rightarrow> a)
       (hedge_fit polyfit (nat (hedge_window cfg)) (map xy_x rows) (map xy_y rows))"

text \<open>Lines 83--86: the spread.\<close>

definition spread_col :: "fit \<Rightarrow> config \<Rightarrow> xy_row list \<Rightarrow> pyfloat list" where
  "spread_col polyfit cfg rows =
     map (\<lambda>i. let x = Some (xy_x (rows ! i)); y = Some (xy_y (rows ! i));
                  b = of_fin (beta_col polyfit cfg rows ! i);
                  a = of_fin (alpha_col polyfit cfg rows ! i)
              in if use_log_price_spread cfg then fsub y (fadd a (fmul b x))
                 else fsub y (fmul b x))
         [0..<length rows]"

text \<open>
  \<^verbatim>\<open>rolling(w)\<close> followed by an aggregate: the window of row \<open>i\<close> is the \<open>w\<close> rows ending at
  \<open>i\<close>. pandas turns infinities into NaN before it aggregates, and the result is NaN
  unless the window is complete and free of NaN (\<^verbatim>\<open>min_periods\<close> defaults to the window
  size); otherwise it is the aggregate of the window's finite values.
\<close>

definition rolling :: "nat \<Rightarrow> (real list \<Rightarrow> real option) \<Rightarrow> pyfloat list \<Rightarrow> real option list" where
  "rolling w f xs =
     map (\<lambda>i. if i + 1 < w then None
              else (case those (map fin_of (iloc (i + 1 - w) (i + 1) xs)) of
                      None \<Rightarrow> None
                    | Some vs \<Rightarrow> f vs))
         [0..<length xs]"

text \<open>Lines 88--90.\<close>

definition spread_mean_col :: "fit \<Rightarrow> config \<Rightarrow> xy_row list \<Rightarrow> real option list" where
  "spread_mean_col polyfit cfg rows =
     rolling (nat (spread_window cfg)) mean (spread_col polyfit cfg rows)"

definition spread_std_col :: "fit \<Rightarrow> config \<Rightarrow> xy_row list \<Rightarrow> real option list" where
  "spread_std_col polyfit cfg rows =
     rolling (nat (spread_window cfg)) pop_std (spread_col polyfit cfg rows)"

definition z_col :: "fit \<Rightarrow> config \<Rightarrow> xy_row list \<Rightarrow> pyfloat list" where
  "z_col polyfit cfg rows =
     map (\<lambda>i. fdiv (fsub (spread_col polyfit cfg rows ! i)
                          (of_fin (spread_mean_col polyfit cfg rows ! i)))
                   (of_fin (spread_std_col polyfit cfg rows ! i)))
         [0..<length rows]"

text \<open>
  Line 92, \<^verbatim>\<open>df.dropna()\<close>: row \<open>i\<close> of the frame is kept when none of its columns is
  NaN. Then all its values are finite (lemma \<open>signal_row_dropna\<close>: a row of \<open>xy_frame\<close> is
  dropped here exactly when one of its columns is NaN), and the row is a \<open>sigrow\<close>.
\<close>

definition signal_row :: "fit \<Rightarrow> config \<Rightarrow> xy_row list \<Rightarrow> nat \<Rightarrow> sigrow option" where
  "signal_row polyfit cfg rows i =
     (case (beta_col polyfit cfg rows ! i, alpha_col polyfit cfg rows ! i,
            fin_of (spread_col polyfit cfg rows ! i), spread_mean_col polyfit cfg rows ! i,
            spread_std_col polyfit cfg rows ! i, fin_of (z_col polyfit cfg rows ! i)) of
        (Some b, Some a, Some s, Some m, Some sd, Some z) \<Rightarrow>
          (case (xy_price_a (rows ! i), xy_price_b (rows ! i), xy_x (rows ! i),
                 xy_y (rows ! i)) of
             (Fin pa, Fin pb, Fin x, Fin y) \<Rightarrow>
               Some \<lparr> ts = xy_ts (rows ! i), price_a = pa, price_b = pb, xval = x, yval = y,
                      beta = b, alpha = a, spread = s, spread_mean = m, spread_std = sd,
                      zscore = z \<rparr>
           | _ \<Rightarrow> None)
      | _ \<Rightarrow> None)"

definition signal_frame :: "fit \<Rightarrow> config \<Rightarrow> xy_row list \<Rightarrow> sigrow list" where
  "signal_frame polyfit cfg rows =
     List.map_filter (signal_row polyfit cfg rows) [0..<length rows]"

text \<open>
  The whole of \<^verbatim>\<open>prepare_data\<close>. With rows to fit and \<open>hedge_window \<le> 0\<close> the first
  iteration slices an empty window and \<^verbatim>\<open>np.polyfit\<close> raises \<^verbatim>\<open>TypeError\<close> (empty
  vector); otherwise the first fit that raises ends the call; \<^verbatim>\<open>rolling\<close> raises
  \<^verbatim>\<open>ValueError\<close> on a negative window.
\<close>

definition prepare_data :: "fit \<Rightarrow> config \<Rightarrow> series \<Rightarrow> series \<Rightarrow> py_error + sigrow list" where
  "prepare_data polyfit cfg df_a df_b =
     (let rows = xy_frame cfg df_a df_b in
      if rows \<noteq> [] \<and> hedge_window cfg \<le> 0 then Inl TypeError
      else
        (case first_error
                (hedge_fit polyfit (nat (hedge_window cfg)) (map xy_x rows) (map xy_y rows)) of
           Some e \<Rightarrow> Inl e
         | None \<Rightarrow>
            if spread_window cfg < 0 then Inl ValueError
            else Inr (signal_frame polyfit cfg rows)))"

subsection \<open>\<^verbatim>\<open>run\<close> (lines 100--186) and the Sharpe-like ratio (lines 188--196)\<close>

text \<open>
  \<^verbatim>\<open>pct_change()\<close>: \<open>cur / prev - 1\<close>, NaN on the first row; after an equity of zero it
  is an infinity (or NaN, when the equity stays zero).
\<close>

definition pct_change :: "real list \<Rightarrow> pyfloat list" where
  "pct_change es =
     map (\<lambda>(c, p). fsub (fdiv c p) (Some (Fin 1)))
       (zip (map (\<lambda>e. Some (Fin e)) es) (shift1 (map (\<lambda>e. Some (Fin e)) es)))"

text \<open>The result frame: index, \<^verbatim>\<open>equity\<close> and \<^verbatim>\<open>returns\<close>.\<close>

record result_row =
  r_ts :: nat
  equity :: real
  returns :: pyfloat

definition results_frame :: "nat list \<Rightarrow> real list \<Rightarrow> result_row list" where
  "results_frame idx es =
     map (\<lambda>(t, e, r). \<lparr> r_ts = t, equity = e, returns = r \<rparr>) (zip idx (zip es (pct_change es)))"

definition run :: "fit \<Rightarrow> config \<Rightarrow> series \<Rightarrow> series \<Rightarrow> py_error + (result_row list \<times> int)" where
  "run polyfit cfg df_a df_b =
     (case prepare_data polyfit cfg df_a df_b of
        Inl e \<Rightarrow> Inl e
      | Inr df \<Rightarrow>
         (case backtest cfg df of
            Inl e \<Rightarrow> Inl e
          | Inr st \<Rightarrow> Inr (results_frame (map ts df) (equity_series st), trade_count st)))"

text \<open>
  \<^verbatim>\<open>performance_metrics\<close>, lines 191--196: the \<^verbatim>\<open>Sharpe\<close> entry of the returned
  dictionary. \<^verbatim>\<open>rets.std(ddof=0) == 0\<close> is false when the standard deviation is NaN.
\<close>

definition sharpe :: "result_row list \<Rightarrow> pyfloat" where
  "sharpe results =
     (let rets = dropna (map returns results) in
      if series_std rets = Some (Fin 0) \<or> length rets < 2 then None
      else fdiv (fmul (Some (Fin (sqrt (252 * 78)))) (series_mean rets)) (series_std rets))"

subsection \<open>Comparing two runs that differ in \<open>cost_bps\<close>\<close>

text \<open>
  \<open>dominated hi lo\<close>: the two loop states agree on the position, the shares, the entry label
  and the trade count, and \<open>hi\<close> has no more capital and no larger recorded equity at any
  bar than \<open>lo\<close>.
\<close>

definition dominated :: "bt_state \<Rightarrow> bt_state \<Rightarrow> bool" where
  "dominated hi lo =
     (position hi = position lo \<and> entry_idx hi = entry_idx lo \<and> sh_a hi = sh_a lo
      \<and> sh_b hi = sh_b lo \<and> trade_count hi = trade_count lo \<and> capital hi \<le> capital lo
      \<and> list_all2 (\<le>) (equity_series hi) (equity_series lo))"

text \<open>
  A frame is non-degenerate when, from row \<open>hedge_window\<close> on, every fit returns defined
  coefficients and \<open>x\<close> and \<open>y\<close> are finite, and the rolling deviation is not zero from
  row \<open>hedge_window + spread_window - 1\<close> on.
\<close>

definition fit_defined :: "py_error + real option \<times> real option \<Rightarrow> bool" where
  "fit_defined r = (case r of Inr (Some b, Some a) \<Rightarrow> True | _ \<Rightarrow> False)"

definition is_Fin :: "xfloat \<Rightarrow> bool" where
  "is_Fin u = (case u of Fin a \<Rightarrow> True | _ \<Rightarrow> False)"

definition non_degenerate :: "fit \<Rightarrow> config \<Rightarrow> xy_row list \<Rightarrow> bool" where
  "non_degenerate polyfit cfg rows =
     list_all
       (\<lambda>i. (nat (hedge_window cfg) \<le> i \<longrightarrow>
               fit_defined
                 (hedge_fit polyfit (nat (hedge_window cfg)) (map xy_x rows) (map xy_y rows) ! i)
               \<and> is_Fin (xy_x (rows ! i)) \<and> is_Fin (xy_y (rows ! i)))
            \<and> (nat (hedge_window cfg) + nat (spread_window cfg) - 1 \<le> i \<longrightarrow>
               spread_std_col polyfit cfg rows ! i \<noteq> Some 0))
       [0..<length rows]"

subsection \<open>The object level: frames in a store\<close>

text \<open>
  A \<^verbatim>\<open>DataFrame\<close> is a mutable object: \<^verbatim>\<open>df[c] = values\<close> changes the frame \<open>df\<close> refers
  to, whoever else refers to it. To state what the class does to its caller's frames, a
  frame is an index with named columns, and frames live in a store addressed by
  position; allocation appends, so an address is never reused. The values stored are those
  of the functions above; this level records where they are stored.
\<close>

record frame =
  f_index :: "nat list"
  f_cols :: "(string \<times> pyfloat list) list"

type_synonym store = "frame list"

definition alloc :: "store \<Rightarrow> frame \<Rightarrow> store \<times> nat" where
  "alloc h f = (h @ [f], length h)"

text \<open>\<^verbatim>\<open>df[c] = values\<close> on the frame at address \<open>p\<close>.\<close>

definition setitem :: "store \<Rightarrow> nat \<Rightarrow> string \<Rightarrow> pyfloat list \<Rightarrow> store" where
  "setitem h p c vs = h[p := (h ! p)\<lparr> f_cols := AList.update c vs (f_cols (h ! p)) \<rparr>]"

definition has_col :: "frame \<Rightarrow> string \<Rightarrow> bool" where
  "has_col f c = (c \<in> set (map fst (f_cols f)))"

definition getitem :: "frame \<Rightarrow> string \<Rightarrow> pyfloat list" where
  "getitem f c = (case map_of (f_cols f) c of None \<Rightarrow> [] | Some vs \<Rightarrow> vs)"

text \<open>The index and the \<^verbatim>\<open>close\<close> column of an input frame.\<close>

definition series_of :: "frame \<Rightarrow> series" where
  "series_of f = zip (f_index f) (getitem f ''close'')"

text \<open>
  The object: the addresses of its two frames and its configuration (lines 31--44).
  \<^verbatim>\<open>__init__\<close> stores copies of the frames it is given.
\<close>

record backtester =
  bt_df_a :: nat
  bt_df_b :: nat
  bt_cfg :: config

definition Backtester_init :: "store \<Rightarrow> nat \<Rightarrow> nat \<Rightarrow> config \<Rightarrow> store \<times> backtester" where
  "Backtester_init h df_a df_b cfg =
     (let (h1, a) = alloc h (h ! df_a);
          (h2, b) = alloc h1 (h1 ! df_b)
      in (h2, \<lparr> bt_df_a = a, bt_df_b = b, bt_cfg = cfg \<rparr>))"

text \<open>The frames that the two \<^verbatim>\<open>dropna()\<close> calls of \<^verbatim>\<open>prepare_data\<close> return.\<close>

definition frame_of_xy :: "config \<Rightarrow> xy_row list \<Rightarrow> frame" where
  "frame_of_xy cfg rows =
     \<lparr> f_index = map xy_ts rows,
       f_cols =
         [(''price_a'', map (\<lambda>r. Some (xy_price_a r)) rows),
          (''price_b'', map (\<lambda>r. Some (xy_price_b r)) rows)]
         @ (if use_log_price_spread cfg
            then [(''x'', map (\<lambda>r. Some (xy_x r)) rows), (''y'', map (\<lambda>r. Some (xy_y r)) rows)]
            else [(''y'', map (\<lambda>r. Some (xy_y r)) rows), (''x'', map (\<lambda>r. Some (xy_x r)) rows)]) \<rparr>"

definition frame_of_signal :: "config \<Rightarrow> sigrow list \<Rightarrow> frame" where
  "frame_of_signal cfg df =
     \<lparr> f_index = map ts df,
       f_cols =
         [(''price_a'', map (\<lambda>r. Some (Fin (price_a r))) df),
          (''price_b'', map (\<lambda>r. Some (Fin (price_b r))) df)]
         @ (if use_log_price_spread cfg
            then [(''x'', map (\<lambda>r. Some (Fin (xval r))) df), (''y'', map (\<lambda>r. Some (Fin (yval r))) df)]
            else [(''y'', map (\<lambda>r. Some (Fin (yval r))) df), (''x'', map (\<lambda>r. Some (Fin (xval r))) df)])
         @ [(''beta'', map (\<lambda>r. Some (Fin (beta r))) df),
            (''alpha'', map (\<lambda>r. Some (Fin (alpha r))) df),
            (''spread'', map (\<lambda>r. Some (Fin (spread r))) df),
            (''spread_mean'', map (\<lambda>r. Some (Fin (spread_mean r))) df),
            (''spread_std'', map (\<lambda>r. Some (Fin (spread_std r))) df),
            (''z'', map (\<lambda>r. Some (Fin (zscore r))) df)] \<rparr>"

text \<open>
  \<^verbatim>\<open>prepare_data\<close> on the store, statement by statement: line 48 builds a new frame, lines
  50--60 add columns to it, line 62 rebinds \<open>df\<close> to the new frame \<^verbatim>\<open>dropna()\<close> returns,
  lines 79--90 add columns to that one, and line 92 returns a third. The frames of the
  object are only read; a missing \<^verbatim>\<open>close\<close> column raises \<^verbatim>\<open>KeyError\<close> at line 50 or 51.
\<close>

definition prepare_data_h :: "fit \<Rightarrow> backtester \<Rightarrow> store \<Rightarrow> store \<times> (py_error + nat)" where
  "prepare_data_h polyfit self h =
     (let cfg = bt_cfg self;
          sa = series_of (h ! bt_df_a self);
          sb = series_of (h ! bt_df_b self);
          idx = index_intersection sa sb;
          (h1, d) = alloc h \<lparr> f_index = idx, f_cols = [] \<rparr>
      in if \<not> has_col (h ! bt_df_a self) ''close'' then (h1, Inl KeyError)
         else
           (let pa = map (loc_close sa) idx;
                h2 = setitem h1 d ''price_a'' pa
            in if \<not> has_col (h ! bt_df_b self) ''close'' then (h2, Inl KeyError)
               else
                 (let pb = map (loc_close sb) idx;
                      h3 = setitem h2 d ''price_b'' pb;
                      h4 = (if use_log_price_spread cfg
                            then setitem (setitem h3 d ''x'' (x_col cfg pb)) d ''y'' (y_col cfg pa)
                            else setitem (setitem h3 d ''y'' (y_col cfg pa)) d ''x'' (x_col cfg pb));
                      rows = xy_frame cfg sa sb;
                      (h5, d2) = alloc h4 (frame_of_xy cfg rows)
                  in if rows \<noteq> [] \<and> hedge_window cfg \<le> 0 then (h5, Inl TypeError)
                     else
                       (case first_error
                               (hedge_fit polyfit (nat (hedge_window cfg)) (map xy_x rows)
                                  (map xy_y rows)) of
                          Some e \<Rightarrow> (h5, Inl e)
                        | None \<Rightarrow>
                           (let h6 = setitem h5 d2 ''beta''
                                       (map of_fin (beta_col polyfit cfg rows));
                                h7 = setitem h6 d2 ''alpha''
                                       (map of_fin (alpha_col polyfit cfg rows));
                                h8 = setitem h7 d2 ''spread'' (spread_col polyfit cfg rows)
                            in if spread_window cfg < 0 then (h8, Inl ValueError)
                               else
                                 (let h9 = setitem h8 d2 ''spread_mean''
                                             (map of_fin (spread_mean_col polyfit cfg rows));
                                      h10 = setitem h9 d2 ''spread_std''
                                              (map of_fin (spread_std_col polyfit cfg rows));
                                      h11 = setitem h10 d2 ''z'' (z_col polyfit cfg rows);
                                      (h12, d3) =
                                        alloc h11
                                          (frame_of_signal cfg (signal_frame polyfit cfg rows))
                                  in (h12, Inr d3)))))))"

text \<open>
  \<^verbatim>\<open>run\<close> on the store: the prepared frame is read by the loop, line 182 builds the result
  frame and line 183 adds its \<^verbatim>\<open>returns\<close> column. It returns the address of the result
  frame and the trade count.
\<close>

definition run_h :: "fit \<Rightarrow> backtester \<Rightarrow> store \<Rightarrow> store \<times> (py_error + nat \<times> int)" where
  "run_h polyfit self h =
     (let cfg = bt_cfg self;
          sa = series_of (h ! bt_df_a self);
          sb = series_of (h ! bt_df_b self);
          (h1, r) = prepare_data_h polyfit self h
      in case r of
           Inl e \<Rightarrow> (h1, Inl e)
         | Inr d \<Rightarrow>
            (let df = signal_frame polyfit cfg (xy_frame cfg sa sb) in
             case backtest cfg df of
               Inl e \<Rightarrow> (h1, Inl e)
             | Inr st \<Rightarrow>
                (let (h2, res) =
                       alloc h1 \<lparr> f_index = f_index (h1 ! d),
                                  f_cols = [(''equity'', map (\<lambda>e. Some (Fin e)) (equity_series st))] \<rparr>;
                     h3 = setitem h2 res ''returns'' (pct_change (equity_series st))
                 in (h3, Inr (res, trade_count st)))))"

text \<open>Any sequence of calls of the two methods on the object.\<close>

datatype call = PrepareData | Run

fun calls :: "fit \<Rightarrow> backtester \<Rightarrow> store \<Rightarrow> call list \<Rightarrow> store" where
  "calls polyfit self h [] = h"
| "calls polyfit self h (PrepareData # ms) =
     calls polyfit self (fst (prepare_data_h polyfit self h)) ms"
| "calls polyfit self h (Run # ms) =
     calls polyfit self (fst (run_h polyfit self h)) ms"

section \<open>Example inputs\<close>

text \<open>
  A signal row with the given label, prices and z-score. The other columns are filled in
  consistently for positive prices: \<open>x = log price_b\<close>, \<open>y = log price_a\<close>, a hedge ratio of
  1 with intercept \<open>log (price_a / price_b)\<close>, hence a zero spread.
\<close>

definition mk_row :: "nat \<Rightarrow> real \<Rightarrow> real \<Rightarrow> real \<Rightarrow> sigrow" where
  "mk_row t pa pb z =
     \<lparr> ts = t, price_a = pa, price_b = pb, xval = ln pb, yval = ln pa, beta = 1,
       alpha = ln (pa / pb), spread = 0, spread_mean = - z, spread_std = 1, zscore = z \<rparr>"

text \<open>The default configuration with a cost of 10 bps and a stop at \<open>|z| \<ge> 3\<close>.\<close>

definition stop_cfg :: config where
  "stop_cfg = default_config\<lparr> cost_bps := 10, stop_z := Some 3 \<rparr>"

text \<open>The default configuration with a cost of 10 bps.\<close>

definition cost_cfg :: config where
  "cost_cfg = default_config\<lparr> cost_bps := 10 \<rparr>"

text \<open>
  Three bars: a short-spread entry (\<open>z = 2\<close>), its exit (\<open>z = 0.1\<close>) and a long-spread entry
  (\<open>z = -2\<close>) that is still open when the frame ends.
\<close>

definition trip_df :: "sigrow list" where
  "trip_df = [mk_row 10 100 50 2, mk_row 11 98 50 (1 / 10), mk_row 12 80 40 (- 2)]"

text \<open>A result frame with returns of 1\% and 3\%.\<close>

definition ex_results :: "result_row list" where
  "ex_results = results_frame [10, 11, 12] [1000000, 1010000, 1040300]"

text \<open>
  A result frame whose first equity is zero: the returns are NaN, \<open>-inf\<close>, 0 and 1.
\<close>

definition inf_results :: "result_row list" where
  "inf_results = results_frame [10, 11, 12, 13] [0, - 200, - 200, - 400]"

text \<open>
  An instance of the fit for the examples. On finite values with \<open>x\<close> not constant it is
  the closed form of the least-squares line, which is what \<^verbatim>\<open>np.polyfit(x, y, 1)\<close> computes
  in exact arithmetic; every window of the examples that return is of this kind. On an
  empty window \<^verbatim>\<open>np.polyfit\<close> raises \<^verbatim>\<open>TypeError\<close>; an infinity in \<open>x\<close> makes the
  decomposition fail (\<^verbatim>\<open>LinAlgError\<close>); an infinity in \<open>y\<close> alone gives NaN coefficients.
  (On a window with constant \<open>x\<close> the normal equations are singular and this instance
  returns NaN, where NumPy returns a rank-deficient solution; no example has such a
  window.)
\<close>

definition ols :: fit where
  "ols xs ys =
     (if xs = [] then Inl TypeError
      else
        (case those (map (\<lambda>x. fin_of (Some x)) xs) of
           None \<Rightarrow> Inl LinAlgError
         | Some us \<Rightarrow>
            (case those (map (\<lambda>y. fin_of (Some y)) ys) of
               None \<Rightarrow> Inr (None, None)
             | Some vs \<Rightarrow>
                (let n = real (length us); sx = sum_list us; sy = sum_list vs;
                     sxx = sum_list (map (\<lambda>x. x * x) us);
                     sxy = sum_list (map (\<lambda>(x, y). x * y) (zip us vs));
                     d = n * sxx - sx * sx
                 in if d = 0 then Inr (None, None)
                    else (let b = (n * sxy - sx * sy) / d
                          in Inr (Some b, Some ((sy - b * sx) / n)))))))"

text \<open>
  Two aligned series of five bars, labels 10 to 14, with log prices \<open>x = 0, 1, 2, 3, 4\<close>
  for B and \<open>y = 0, 1, 0, 2, 1\<close> for A, and a configuration with both windows of length 2.
\<close>

definition ex_a :: series where
  "ex_a = [(10, Some (Fin 1)), (11, Some (Fin (exp 1))), (12, Some (Fin 1)),
           (13, Some (Fin (exp 2))), (14, Some (Fin (exp 1)))]"

definition ex_b :: series where
  "ex_b = [(10, Some (Fin 1)), (11, Some (Fin (exp 1))), (12, Some (Fin (exp 2))),
           (13, Some (Fin (exp 3))), (14, Some (Fin (exp 4)))]"

definition win_cfg :: config where
  "win_cfg = default_config\<lparr> hedge_window := 2, spread_window := 2 \<rparr>"

definition ex_rows :: "xy_row list" where
  "ex_rows =
     [\<lparr> xy_ts = 10, xy_price_a = Fin 1, xy_price_b = Fin 1, xy_x = Fin 0, xy_y = Fin 0 \<rparr>,
      \<lparr> xy_ts = 11, xy_price_a = Fin (exp 1), xy_price_b = Fin (exp 1), xy_x = Fin 1,
        xy_y = Fin 1 \<rparr>,
      \<lparr> xy_ts = 12, xy_price_a = Fin 1, xy_price_b = Fin (exp 2), xy_x = Fin 2,
        xy_y = Fin 0 \<rparr>,
      \<lparr> xy_ts = 13, xy_price_a = Fin (exp 2), xy_price_b = Fin (exp 3), xy_x = Fin 3,
        xy_y = Fin 2 \<rparr>,
      \<lparr> xy_ts = 14, xy_price_a = Fin (exp 1), xy_price_b = Fin (exp 4), xy_x = Fin 4,
        xy_y = Fin 1 \<rparr>]"

definition ex_signal :: "sigrow list" where
  "ex_signal =
     [\<lparr> ts = 13, price_a = exp 2, price_b = exp 3, xval = 3, yval = 2, beta = - 1, alpha = 2,
        spread = 3, spread_mean = 1 / 2, spread_std = 5 / 2, zscore = 1 \<rparr>,
      \<lparr> ts = 14, price_a = exp 1, price_b = exp 4, xval = 4, yval = 1, beta = 2, alpha = - 4,
        spread = - 3, spread_mean = 0, spread_std = 3, zscore = - 1 \<rparr>]"

text \<open>
  The series of B with a zero close on the bar labelled 11: its logarithm is \<open>-inf\<close>, which
  the \<^verbatim>\<open>dropna()\<close> of line 62 keeps.
\<close>

definition zero_b :: series where
  "zero_b = [(10, Some (Fin 1)), (11, Some (Fin 0)), (12, Some (Fin (exp 2))),
             (13, Some (Fin (exp 3))), (14, Some (Fin (exp 4)))]"

text \<open>A frame that agrees with \<open>ex_rows\<close> on its first two rows only.\<close>

definition ex_rows_alt :: "xy_row list" where
  "ex_rows_alt =
     [\<lparr> xy_ts = 10, xy_price_a = Fin 1, xy_price_b = Fin 1, xy_x = Fin 0, xy_y = Fin 0 \<rparr>,
      \<lparr> xy_ts = 11, xy_price_a = Fin (exp 1), xy_price_b = Fin (exp 1), xy_x = Fin 1,
        xy_y = Fin 1 \<rparr>,
      \<lparr> xy_ts = 12, xy_price_a = Fin (exp 5), xy_price_b = Fin (exp 7), xy_x = Fin 7,
        xy_y = Fin 5 \<rparr>]"

text \<open>What \<open>run\<close> returns on the five-bar example: two rows, no trade.\<close>

definition ex_run_results :: "result_row list" where
  "ex_run_results =
     [\<lparr> r_ts = 13, equity = 1000000, returns = None \<rparr>,
      \<lparr> r_ts = 14, equity = 1000000, returns = Some (Fin 0) \<rparr>]"

text \<open>
  A second pair of five bars: as the first, but with the prices of the bar labelled 13
  repeated on the bar labelled 14 (log prices \<open>x = 0, 1, 2, 3, 3\<close> and
  \<open>y = 0, 1, 0, 2, 2\<close>). The rows labelled 13 and 14 survive, with \<open>z = 1\<close> and \<open>z = -1\<close>.
\<close>

definition flat_a :: series where
  "flat_a = [(10, Some (Fin 1)), (11, Some (Fin (exp 1))), (12, Some (Fin 1)),
             (13, Some (Fin (exp 2))), (14, Some (Fin (exp 2)))]"

definition flat_b :: series where
  "flat_b = [(10, Some (Fin 1)), (11, Some (Fin (exp 1))), (12, Some (Fin (exp 2))),
             (13, Some (Fin (exp 3))), (14, Some (Fin (exp 3)))]"

definition flat_rows :: "xy_row list" where
  "flat_rows =
     [\<lparr> xy_ts = 10, xy_price_a = Fin 1, xy_price_b = Fin 1, xy_x = Fin 0, xy_y = Fin 0 \<rparr>,
      \<lparr> xy_ts = 11, xy_price_a = Fin (exp 1), xy_price_b = Fin (exp 1), xy_x = Fin 1,
        xy_y = Fin 1 \<rparr>,
      \<lparr> xy_ts = 12, xy_price_a = Fin 1, xy_price_b = Fin (exp 2), xy_x = Fin 2,
        xy_y = Fin 0 \<rparr>,
      \<lparr> xy_ts = 13, xy_price_a = Fin (exp 2), xy_price_b = Fin (exp 3), xy_x = Fin 3,
        xy_y = Fin 2 \<rparr>,
      \<lparr> xy_ts = 14, xy_price_a = Fin (exp 2), xy_price_b = Fin (exp 3), xy_x = Fin 3,
        xy_y = Fin 2 \<rparr>]"

definition flat_signal :: "sigrow list" where
  "flat_signal =
     [\<lparr> ts = 13, price_a = exp 2, price_b = exp 3, xval = 3, yval = 2, beta = - 1, alpha = 2,
        spread = 3, spread_mean = 1 / 2, spread_std = 5 / 2, zscore = 1 \<rparr>,
      \<lparr> ts = 14, price_a = exp 2, price_b = exp 3, xval = 3, yval = 2, beta = 2, alpha = - 4,
        spread = 0, spread_mean = 3 / 2, spread_std = 3 / 2, zscore = - 1 \<rparr>]"

text \<open>
  Configurations with both windows of length 2 and an entry threshold of 0.5: on the
  second example the bar labelled 13 opens a short spread, which is still open when the
  frame ends.
\<close>

definition trade_cfg :: config where
  "trade_cfg = default_config\<lparr> hedge_window := 2, spread_window := 2, z_entry := 1 / 2 \<rparr>"

text \<open>The same with a negative notional per leg.\<close>

definition neg_cfg :: config where
  "neg_cfg = trade_cfg\<lparr> notional_per_leg := - 100000 \<rparr>"

text \<open>The same with a cost of 10 bps and at most one bar held: the bar labelled 14 exits.\<close>

definition hold_cfg :: config where
  "hold_cfg = trade_cfg\<lparr> cost_bps := 10, max_hold_bars := Some 1 \<rparr>"

text \<open>
  What \<open>run\<close> returns on the second example when a position is opened on the bar labelled
  13: both bars record the equity \<open>e\<close> left after the entry cost.
\<close>

definition flat_results :: "real \<Rightarrow> result_row list" where
  "flat_results e =
     [\<lparr> r_ts = 13, equity = e, returns = None \<rparr>,
      \<lparr> r_ts = 14, equity = e, returns = Some (Fin 0) \<rparr>]"

text \<open>A store holding the two input frames of the five-bar example at addresses 0 and 1.\<close>

definition ex_store :: store where
  "ex_store =
     [\<lparr> f_index = map fst ex_a, f_cols = [(''close'', map snd ex_a)] \<rparr>,
      \<lparr> f_index = map fst ex_b, f_cols = [(''close'', map snd ex_b)] \<rparr>]"

section \<open>Properties\<close>

subsection \<open>Evaluation of the examples\<close>

lemmas bar_defs =
  bar_def held_too_long_def entry_block_def entry_signal_def init_state_def Let_def
  equity_of_def mtm_def exit_triggered_def stop_out_def realize_def trade_cost_def

lemmas example_defs = mk_row_def stop_cfg_def cost_cfg_def default_config_def trip_df_def

lemma bar_trip_0:
  "bar cost_cfg [10, 11, 12] (init_state cost_cfg) (mk_row 10 100 50 2) =
     Inr \<lparr> capital = 999800, position = - 1, entry_idx = Some 10, sh_a = - 1000, sh_b = 2000,
           equity_series = [999800], trade_count = 1 \<rparr>"
  by (simp add: bar_defs example_defs)

lemma bar_trip_1:
  "bar cost_cfg [10, 11, 12]
       \<lparr> capital = 999800, position = - 1, entry_idx = Some 10, sh_a = - 1000, sh_b = 2000,
         equity_series = [999800], trade_count = 1 \<rparr> (mk_row 11 98 50 (1 / 10)) =
     Inr \<lparr> capital = 1001600, position = 0, entry_idx = None, sh_a = 0, sh_b = 0,
           equity_series = [999800, 1001800], trade_count = 1 \<rparr>"
  by (simp add: bar_defs example_defs)

lemma bar_trip_2:
  "bar cost_cfg [10, 11, 12]
       \<lparr> capital = 1001600, position = 0, entry_idx = None, sh_a = 0, sh_b = 0,
         equity_series = [999800, 1001800], trade_count = 1 \<rparr> (mk_row 12 80 40 (- 2)) =
     Inr \<lparr> capital = 1001400, position = 1, entry_idx = Some 12, sh_a = 1250,
           sh_b = - 2500, equity_series = [999800, 1001800, 1001400],
           trade_count = 2 \<rparr>"
  by (simp add: bar_defs example_defs)

lemma backtest_trip:
  "backtest cost_cfg trip_df =
     Inr \<lparr> capital = 1001400, position = 1, entry_idx = Some 12, sh_a = 1250,
           sh_b = - 2500, equity_series = [999800, 1001800, 1001400],
           trade_count = 2 \<rparr>"
proof -
  have idx: "map ts trip_df = [10, 11, 12]"
    by (simp add: example_defs)
  have s0: "init_state cost_cfg =
      \<lparr> capital = 1000000, position = 0, entry_idx = None, sh_a = 0, sh_b = 0,
        equity_series = [], trade_count = 0 \<rparr>"
    by (simp add: init_state_def example_defs)
  show ?thesis
    unfolding backtest_def idx
    by (simp add: trip_df_def bar_trip_0 bar_trip_1 bar_trip_2 [unfolded s0])
qed

subsection \<open>Position sizing at entry\<close>

text \<open>
  Claim C5, as the code has it. When the entry block opens a position with direction
  \<open>d\<close> (\<open>+1\<close> long spread, \<open>-1\<close> short spread), the shares are \<open>sh_a = (notional_per_leg / price_a) * d\<close> and
  \<open>sh_b = -(notional_per_leg * scale / price_b) * d\<close> with \<open>scale = |beta|\<close> if
  \<open>beta_neutral\<close> and 1 otherwise. Hence \<open>|sh_a * price_a| = |notional_per_leg|\<close>, which is
  \<open>notional_per_leg\<close> itself for a non-negative notional. (An entry that returns has non-zero
  prices: a zero price raises \<open>ZeroDivisionError\<close>.)
\<close>

theorem entry_sizing:
  assumes "position st = 0"
      and "entry_block cfg st row = Inr st'"
      and "position st' \<noteq> 0"
  shows "(position st' = 1 \<or> position st' = - 1)
       \<and> sh_a st' = (notional_per_leg cfg / price_a row) * real_of_int (position st')
       \<and> sh_b st' =
            - (notional_per_leg cfg * (if beta_neutral cfg then \<bar>beta row\<bar> else 1) / price_b row)
              * real_of_int (position st')
       \<and> \<bar>sh_a st' * price_a row\<bar> = \<bar>notional_per_leg cfg\<bar>
       \<and> (0 \<le> notional_per_leg cfg \<longrightarrow> \<bar>sh_a st' * price_a row\<bar> = notional_per_leg cfg)"
  using assms
  by (auto simp: entry_block_def entry_signal_def Let_def split: if_splits)

theorem entry_sizing_witness:
  "position (init_state cost_cfg) = 0
   \<and> entry_block cost_cfg (init_state cost_cfg) (mk_row 10 100 50 2) =
       Inr \<lparr> capital = 999800, position = - 1, entry_idx = Some 10, sh_a = - 1000, sh_b = 2000,
             equity_series = [], trade_count = 1 \<rparr>
   \<and> \<bar>- 1000 * price_a (mk_row 10 100 50 2)\<bar> = notional_per_leg cost_cfg"
proof -
  let ?st' = "\<lparr> capital = 999800, position = - 1, entry_idx = Some 10, sh_a = - 1000,
                 sh_b = 2000, equity_series = [], trade_count = 1 \<rparr>"
  have h1: "position (init_state cost_cfg) = 0"
    by (simp add: init_state_def)
  have h2: "entry_block cost_cfg (init_state cost_cfg) (mk_row 10 100 50 2) = Inr ?st'"
    by (simp add: bar_defs example_defs)
  have h3: "position ?st' \<noteq> 0"
    by simp
  have h4: "0 \<le> notional_per_leg cost_cfg"
    by (simp add: example_defs)
  from entry_sizing [OF h1 h2 h3] h4
  have "\<bar>sh_a ?st' * price_a (mk_row 10 100 50 2)\<bar> = notional_per_leg cost_cfg"
    by blast
  with h1 h2 show ?thesis by simp
qed

text \<open>
  The claim has \<open>|sh_a * price_a|\<close> equal to \<open>notional_per_leg\<close> after any entry. The
  constructor accepts a negative notional; then the product is its absolute value.
\<close>

theorem entry_sizing_counterexample:
  "entry_block neg_cfg (init_state neg_cfg) (mk_row 10 100 50 2) =
     Inr \<lparr> capital = 1000000, position = - 1, entry_idx = Some 10, sh_a = 1000, sh_b = - 2000,
           equity_series = [], trade_count = 1 \<rparr>
   \<and> \<bar>1000 * price_a (mk_row 10 100 50 2)\<bar> \<noteq> notional_per_leg neg_cfg"
  by (simp add: bar_defs example_defs neg_cfg_def trade_cfg_def)

subsection \<open>Exit realisation\<close>

lemma exit_triggered_equity_series [simp]:
  "exit_triggered cfg (st\<lparr>equity_series := es\<rparr>) row htl = exit_triggered cfg st row htl"
  by (simp add: exit_triggered_def)

text \<open>
  Claim C4. On a bar where the exit test of line 172 fires (\<open>st1\<close> is the state after the
  entry block), the recorded equity is the capital plus the mark-to-market of the legs at
  this bar's prices; only then is the capital set to that equity minus the trade cost, and
  the position, the shares and the entry label are cleared. For a position held at the start
  of the bar the recorded equity is computed from the state before the bar alone, so it
  does not contain the exit cost.
\<close>

theorem exit_realization:
  assumes "held_too_long cfg idx st (ts row) = Inr htl"
      and "entry_block cfg st row = Inr st1"
      and "exit_triggered cfg st1 row htl"
  shows "\<exists>st'. bar cfg idx st row = Inr st'
       \<and> equity_series st' =
           equity_series st @ [capital st1 + (sh_a st1 * price_a row + sh_b st1 * price_b row)]
       \<and> capital st' = last (equity_series st') - trade_cost cfg
       \<and> position st' = 0 \<and> sh_a st' = 0 \<and> sh_b st' = 0 \<and> entry_idx st' = None
       \<and> trade_count st' = trade_count st1
       \<and> (position st \<noteq> 0 \<longrightarrow>
            last (equity_series st') =
              capital st + (sh_a st * price_a row + sh_b st * price_b row))"
  using assms
  by (auto simp: bar_def Let_def realize_def equity_of_def mtm_def entry_block_def
      split: if_splits)

theorem exit_realization_witness:
  "bar cost_cfg [10, 11, 12]
       \<lparr> capital = 999800, position = - 1, entry_idx = Some 10, sh_a = - 1000, sh_b = 2000,
         equity_series = [999800], trade_count = 1 \<rparr> (mk_row 11 98 50 (1 / 10)) =
     Inr \<lparr> capital = 1001600, position = 0, entry_idx = None, sh_a = 0, sh_b = 0,
           equity_series = [999800, 999800 + (- 1000 * 98 + 2000 * 50)], trade_count = 1 \<rparr>
   \<and> trade_cost cost_cfg = 200"
proof -
  let ?st = "\<lparr> capital = 999800, position = - 1, entry_idx = Some 10, sh_a = - 1000,
                sh_b = 2000, equity_series = [999800], trade_count = 1 \<rparr>"
  let ?row = "mk_row 11 98 50 (1 / 10)"
  have h1: "held_too_long cost_cfg [10, 11, 12] ?st (ts ?row) = Inr False"
    by (simp add: bar_defs example_defs)
  have h2: "entry_block cost_cfg ?st ?row = Inr ?st"
    by (simp add: bar_defs example_defs)
  have h3: "exit_triggered cost_cfg ?st ?row False"
    by (simp add: bar_defs example_defs)
  have c: "trade_cost cost_cfg = 200"
    by (simp add: bar_defs example_defs)
  from exit_realization [OF h1 h2 h3] obtain st' where
    b: "bar cost_cfg [10, 11, 12] ?st ?row = Inr st'" and
    e: "equity_series st' = [999800, 999800 + (- 1000 * 98 + 2000 * 50)]" and
    k: "capital st' = last (equity_series st') - trade_cost cost_cfg" and
    r: "position st' = 0" "sh_a st' = 0" "sh_b st' = 0" "entry_idx st' = None"
       "trade_count st' = 1"
    by (auto simp: example_defs)
  have "st' = \<lparr> capital = 1001600, position = 0, entry_idx = None, sh_a = 0, sh_b = 0,
           equity_series = [999800, 999800 + (- 1000 * 98 + 2000 * 50)], trade_count = 1 \<rparr>"
    using e k r c by (cases st') simp
  with b c show ?thesis by simp
qed

subsection \<open>Trade count\<close>

lemma bar_trade_count:
  assumes "bar cfg idx st row = Inr st'"
  shows "trade_count st' = trade_count st + (if entry_performed cfg st row then 1 else 0)"
  using assms
  by (auto simp: bar_def Let_def realize_def entry_performed_def entry_block_def
      split: sum.splits if_splits)

lemma bars_trade_count:
  assumes "bars cfg idx st rows = Inr st'"
  shows "trade_count st' = trade_count st + int (entries cfg idx st rows)"
  using assms
proof (induction rows arbitrary: st)
  case Nil
  then show ?case by (simp add: entries_def)
next
  case (Cons row rows)
  from Cons.prems obtain st1 where b: "bar cfg idx st row = Inr st1"
    and r: "bars cfg idx st1 rows = Inr st'"
    by (auto split: sum.splits)
  have "entries cfg idx st (row # rows) =
        (if entry_performed cfg st row then 1 else 0) + entries cfg idx st1 rows"
    using b by (simp add: entries_def)
  with Cons.IH [OF r] bar_trade_count [OF b] show ?case by simp
qed

text \<open>The loop over a prepared frame: the count is the number of entries performed.\<close>

lemma backtest_trade_count:
  assumes "backtest cfg df = Inr st'"
  shows "trade_count st' = int (entries cfg (map ts df) (init_state cfg) df)"
  using bars_trade_count [of cfg "map ts df" "init_state cfg" df st'] assms
  by (simp add: backtest_def init_state_def)

lemma backtest_trip_entries:
  "entries cost_cfg (map ts trip_df) (init_state cost_cfg) trip_df = 2"
  using backtest_trade_count [OF backtest_trip] by simp

subsection \<open>Entry and exit on the same bar\<close>

lemma held_too_long_flat:
  "position st = 0 \<Longrightarrow> held_too_long cfg idx st t = Inr False"
  by (simp add: held_too_long_def)

text \<open>
  What the loop does on an entry bar: the test of line 172 reads the position the entry
  block has just set, so the new position is flattened on the same bar exactly when its
  \<open>z\<close> meets the mean-reversion or the stop condition. The max-hold flag is computed
  before the entry and is always false on an entry bar.
\<close>

lemma same_bar_exit_iff:
  assumes "position st = 0"
      and "entry_signal cfg (zscore row) \<noteq> 0"
      and "bar cfg idx st row = Inr st'"
  shows "position st' = 0 \<longleftrightarrow> \<bar>zscore row\<bar> < z_exit cfg \<or> stop_out cfg (zscore row)"
  using assms
  by (auto simp: bar_def held_too_long_flat entry_block_def Let_def exit_triggered_def
      realize_def split: if_splits)

text \<open>
  Claim C2 says that a position opened on a bar is never exited on that bar, for any
  configuration. The loop does otherwise: with the default thresholds, a 10 bps cost and a
  stop at \<open>|z| \<ge> 3\<close>, a flat bar with \<open>z = 3.5\<close> opens a short spread (\<open>z > z_entry\<close>),
  counts the trade, pays the entry cost, and is flattened by the stop on the same bar,
  paying the exit cost as well.
\<close>

theorem same_bar_entry_exit:
  "bar stop_cfg [10] (init_state stop_cfg) (mk_row 10 100 50 (7 / 2)) =
     Inr \<lparr> capital = 999600, position = 0, entry_idx = None, sh_a = 0, sh_b = 0,
           equity_series = [999800], trade_count = 1 \<rparr>"
  by (simp add: bar_defs example_defs)

subsection \<open>Cost monotonicity\<close>

lemma trade_cost_mono:
  assumes "0 \<le> notional_per_leg cfg" and "c \<le> c'"
  shows "trade_cost (cfg\<lparr>cost_bps := c\<rparr>) \<le> trade_cost (cfg\<lparr>cost_bps := c'\<rparr>)"
  using assms by (auto simp: trade_cost_def mult_right_mono mult_nonneg_nonneg)

lemma held_too_long_dominated:
  "dominated hi lo \<Longrightarrow>
   held_too_long (cfg\<lparr>cost_bps := c'\<rparr>) idx hi t = held_too_long (cfg\<lparr>cost_bps := c\<rparr>) idx lo t"
  by (auto simp: held_too_long_def dominated_def split: option.splits)

lemma entry_block_dominated:
  assumes "dominated hi lo"
      and "trade_cost (cfg\<lparr>cost_bps := c\<rparr>) \<le> trade_cost (cfg\<lparr>cost_bps := c'\<rparr>)"
  shows "(case entry_block (cfg\<lparr>cost_bps := c\<rparr>) lo row of
            Inl e \<Rightarrow> entry_block (cfg\<lparr>cost_bps := c'\<rparr>) hi row = Inl e
          | Inr lo1 \<Rightarrow> (\<exists>hi1. entry_block (cfg\<lparr>cost_bps := c'\<rparr>) hi row = Inr hi1 \<and> dominated hi1 lo1))"
  using assms
  by (auto simp: entry_block_def dominated_def entry_signal_def Let_def)

lemma bar_dominated:
  assumes "dominated hi lo"
      and "trade_cost (cfg\<lparr>cost_bps := c\<rparr>) \<le> trade_cost (cfg\<lparr>cost_bps := c'\<rparr>)"
  shows "(case bar (cfg\<lparr>cost_bps := c\<rparr>) idx lo row of
            Inl e \<Rightarrow> bar (cfg\<lparr>cost_bps := c'\<rparr>) idx hi row = Inl e
          | Inr lo1 \<Rightarrow> (\<exists>hi1. bar (cfg\<lparr>cost_bps := c'\<rparr>) idx hi row = Inr hi1 \<and> dominated hi1 lo1))"
proof (cases "held_too_long (cfg\<lparr>cost_bps := c\<rparr>) idx lo (ts row)")
  case (Inl e)
  then show ?thesis
    using held_too_long_dominated [OF assms(1), where cfg = cfg and c = c and c' = c' and idx = idx and t = "ts row"]
    by (simp add: bar_def)
next
  case (Inr htl)
  note h = Inr held_too_long_dominated [OF assms(1), where cfg = cfg and c = c and c' = c' and idx = idx and t = "ts row"]
  show ?thesis
  proof (cases "entry_block (cfg\<lparr>cost_bps := c\<rparr>) lo row")
    case (Inl e)
    then show ?thesis
      using h entry_block_dominated [OF assms, of row] by (simp add: bar_def)
  next
    case (Inr lo1)
    with entry_block_dominated [OF assms, of row] obtain hi1 where
      e: "entry_block (cfg\<lparr>cost_bps := c'\<rparr>) hi row = Inr hi1" and d: "dominated hi1 lo1"
      by auto
    show ?thesis
      using h Inr e d assms(2)
      by (auto simp: bar_def Let_def exit_triggered_def stop_out_def realize_def
          equity_of_def mtm_def dominated_def list_all2_appendI)
  qed
qed

lemma bars_dominated:
  assumes "dominated hi lo"
      and "trade_cost (cfg\<lparr>cost_bps := c\<rparr>) \<le> trade_cost (cfg\<lparr>cost_bps := c'\<rparr>)"
  shows "(case bars (cfg\<lparr>cost_bps := c\<rparr>) idx lo rows of
            Inl e \<Rightarrow> bars (cfg\<lparr>cost_bps := c'\<rparr>) idx hi rows = Inl e
          | Inr lo1 \<Rightarrow> (\<exists>hi1. bars (cfg\<lparr>cost_bps := c'\<rparr>) idx hi rows = Inr hi1 \<and> dominated hi1 lo1))"
  using assms(1)
proof (induction rows arbitrary: hi lo)
  case Nil
  then show ?case by simp
next
  case (Cons row rows)
  show ?case
  proof (cases "bar (cfg\<lparr>cost_bps := c\<rparr>) idx lo row")
    case (Inl e)
    with bar_dominated [OF Cons.prems assms(2), of idx row] show ?thesis by simp
  next
    case (Inr lo1)
    with bar_dominated [OF Cons.prems assms(2), of idx row] obtain hi1 where
      b: "bar (cfg\<lparr>cost_bps := c'\<rparr>) idx hi row = Inr hi1" and d: "dominated hi1 lo1"
      by auto
    from Cons.IH [OF d] Inr b show ?thesis by (auto split: sum.splits)
  qed
qed

lemma bars_length:
  "bars cfg idx st rows = Inr st' \<Longrightarrow>
   length (equity_series st') = length (equity_series st) + length rows"
proof (induction rows arbitrary: st)
  case Nil
  then show ?case by simp
next
  case (Cons row rows)
  from Cons.prems obtain st1 where b: "bar cfg idx st row = Inr st1"
    and r: "bars cfg idx st1 rows = Inr st'"
    by (auto split: sum.splits)
  from b have "length (equity_series st1) = Suc (length (equity_series st))"
    by (auto simp: bar_def Let_def realize_def entry_block_def split: sum.splits if_splits)
  with Cons.IH [OF r] show ?case by simp
qed

text \<open>
  The loop over a prepared frame: for a non-negative \<open>notional_per_leg\<close> a larger
  \<open>cost_bps\<close> gives the same entries and exits and, at every bar, an equity that is not
  larger. (When the run with the smaller cost raises, so does the other: \<open>bars_dominated\<close>.)
\<close>

lemma backtest_cost_monotone:
  assumes "0 \<le> notional_per_leg cfg" and "c \<le> c'"
      and "backtest (cfg\<lparr>cost_bps := c\<rparr>) df = Inr lo"
  shows "\<exists>hi. backtest (cfg\<lparr>cost_bps := c'\<rparr>) df = Inr hi
       \<and> length (equity_series hi) = length df \<and> length (equity_series lo) = length df
       \<and> (\<forall>k < length df. equity_series hi ! k \<le> equity_series lo ! k)
       \<and> (df \<noteq> [] \<longrightarrow> last (equity_series hi) \<le> last (equity_series lo))
       \<and> trade_count hi = trade_count lo \<and> position hi = position lo"
proof -
  have d0: "dominated (init_state (cfg\<lparr>cost_bps := c'\<rparr>)) (init_state (cfg\<lparr>cost_bps := c\<rparr>))"
    by (simp add: dominated_def init_state_def)
  from bars_dominated [OF d0 trade_cost_mono [OF assms(1,2)], of "map ts df" df] assms(3)
  obtain hi where b: "backtest (cfg\<lparr>cost_bps := c'\<rparr>) df = Inr hi"
    and d: "dominated hi lo"
    by (auto simp: backtest_def)
  have l1: "length (equity_series lo) = length df"
    using bars_length [of "cfg\<lparr>cost_bps := c\<rparr>" "map ts df" _ df lo] assms(3)
    by (simp add: backtest_def init_state_def)
  from d have a: "list_all2 (\<le>) (equity_series hi) (equity_series lo)"
    by (simp add: dominated_def)
  then have l2: "length (equity_series hi) = length df"
    using l1 by (simp add: list_all2_lengthD)
  have p: "\<forall>k < length df. equity_series hi ! k \<le> equity_series lo ! k"
    using a l2 by (simp add: list_all2_conv_all_nth)
  have "df \<noteq> [] \<longrightarrow> last (equity_series hi) \<le> last (equity_series lo)"
  proof
    assume "df \<noteq> []"
    then have n: "equity_series hi \<noteq> []" "equity_series lo \<noteq> []"
      using l1 l2 by auto
    moreover from p \<open>df \<noteq> []\<close>
    have "equity_series hi ! (length df - 1) \<le> equity_series lo ! (length df - 1)"
      by simp
    ultimately show "last (equity_series hi) \<le> last (equity_series lo)"
      using l1 l2 by (simp add: last_conv_nth)
  qed
  with b d l1 l2 p show ?thesis by (auto simp: dominated_def)
qed

subsection \<open>The columns of the signal frame\<close>

lemma hedge_fit_length [simp]: "length (hedge_fit polyfit hw xs ys) = length xs"
  by (simp add: hedge_fit_def)

lemma beta_col_length [simp]: "length (beta_col polyfit cfg rows) = length rows"
  by (simp add: beta_col_def)

lemma alpha_col_length [simp]: "length (alpha_col polyfit cfg rows) = length rows"
  by (simp add: alpha_col_def)

lemma spread_col_length [simp]: "length (spread_col polyfit cfg rows) = length rows"
  by (simp add: spread_col_def)

lemma rolling_length [simp]: "length (rolling w f xs) = length xs"
  by (simp add: rolling_def)

lemma spread_mean_col_length [simp]: "length (spread_mean_col polyfit cfg rows) = length rows"
  by (simp add: spread_mean_col_def)

lemma spread_std_col_length [simp]: "length (spread_std_col polyfit cfg rows) = length rows"
  by (simp add: spread_std_col_def)

lemma z_col_length [simp]: "length (z_col polyfit cfg rows) = length rows"
  by (simp add: z_col_def)

lemma hedge_fit_nth:
  "i < length xs \<Longrightarrow>
   hedge_fit polyfit hw xs ys ! i =
     (if i < hw then Inr (None, None) else polyfit (iloc (i - hw) i xs) (iloc (i - hw) i ys))"
  by (simp add: hedge_fit_def)

lemma iloc_map: "iloc lo hi (map f xs) = map f (iloc lo hi xs)"
  by (simp add: iloc_def take_map drop_map)

lemma iloc_take:
  assumes "hi \<le> i"
  shows "iloc lo hi (take i xs) = iloc lo hi xs"
proof -
  have "take (hi - lo) (drop lo (take i xs)) = take (hi - lo) (take (i - lo) (drop lo xs))"
    by (simp add: drop_take)
  also have "\<dots> = take (hi - lo) (drop lo xs)"
    using assms by (simp add: min_def)
  finally show ?thesis by (simp add: iloc_def)
qed

lemma iloc_nths:
  assumes "lo \<le> hi" and "hi \<le> length xs"
  shows "iloc lo hi xs = map (\<lambda>j. xs ! j) [lo..<hi]"
proof -
  have "length (iloc lo hi xs) = hi - lo"
    using assms by (simp add: iloc_def)
  moreover have "\<And>k. k < hi - lo \<Longrightarrow> iloc lo hi xs ! k = xs ! (lo + k)"
    using assms by (simp add: iloc_def)
  ultimately show ?thesis
    by (intro nth_equalityI) simp_all
qed

lemma beta_alpha_nth:
  "i < length rows \<Longrightarrow>
   hedge_fit polyfit (nat (hedge_window cfg)) (map xy_x rows) (map xy_y rows) ! i = Inr (b, a) \<Longrightarrow>
   beta_col polyfit cfg rows ! i = b \<and> alpha_col polyfit cfg rows ! i = a"
  by (simp add: beta_col_def alpha_col_def)

lemma of_fin_simps [simp]:
  "of_fin None = None"
  "of_fin (Some a) = Some (Fin a)"
  by (simp_all add: of_fin_def)

lemma float_op_simps [simp]:
  "fadd (Some u) (Some v) = xadd u v" "fadd None b = None" "fadd a None = None"
  "fsub (Some u) (Some v) = xadd u (xneg v)" "fsub None b = None" "fsub a None = None"
  "fmul (Some u) (Some v) = xmul u v" "fmul None b = None" "fmul a None = None"
  "fdiv (Some u) (Some v) = xdiv u v" "fdiv None b = None" "fdiv a None = None"
  "flog (Some u) = xlog u" "flog None = None"
  "fsqrt (Some u) = xsqrt u" "fsqrt None = None"
  by (simp_all add: fadd_def fsub_def fmul_def fdiv_def flog_def fsqrt_def split: option.splits)

subsection \<open>Evaluation of the five-bar example\<close>

lemma ex_xy_frame: "xy_frame win_cfg ex_a ex_b = ex_rows"
  by (simp add: xy_frame_def win_cfg_def default_config_def ex_a_def ex_b_def ex_rows_def
      index_intersection_def loc_close_def x_col_def y_col_def Let_def
      List.map_filter_simps)

lemma ex_hedge:
  "hedge_fit ols 2 (map xy_x ex_rows) (map xy_y ex_rows) =
     [Inr (None, None), Inr (None, None), Inr (Some 1, Some 0), Inr (Some (- 1), Some 2),
      Inr (Some 2, Some (- 4))]"
  by (simp add: hedge_fit_def ex_rows_def iloc_def ols_def Let_def)

lemma ex_beta: "beta_col ols win_cfg ex_rows = [None, None, Some 1, Some (- 1), Some 2]"
  using ex_hedge by (simp add: beta_col_def win_cfg_def)

lemma ex_alpha: "alpha_col ols win_cfg ex_rows = [None, None, Some 0, Some 2, Some (- 4)]"
  using ex_hedge by (simp add: alpha_col_def win_cfg_def)

lemma ex_spread:
  "spread_col ols win_cfg ex_rows =
     [None, None, Some (Fin (- 2)), Some (Fin 3), Some (Fin (- 3))]"
  by (simp add: spread_col_def ex_beta ex_alpha Let_def)
     (simp add: ex_rows_def win_cfg_def default_config_def)

lemma sqrt_25_4: "sqrt (25 / 4) = 5 / 2"
  by (rule real_sqrt_unique) (simp_all add: power2_eq_square)

lemma sqrt_9: "sqrt 9 = 3"
  by (rule real_sqrt_unique) (simp_all add: power2_eq_square)

lemma ex_mean: "spread_mean_col ols win_cfg ex_rows = [None, None, None, Some (1 / 2), Some 0]"
  by (simp add: spread_mean_col_def ex_spread)
     (simp add: win_cfg_def rolling_def iloc_def mean_def)

lemma ex_std: "spread_std_col ols win_cfg ex_rows = [None, None, None, Some (5 / 2), Some 3]"
  by (simp add: spread_std_col_def ex_spread)
     (simp add: win_cfg_def rolling_def iloc_def pop_std_def Let_def power2_eq_square sqrt_25_4 sqrt_9)

lemma ex_length: "length ex_rows = 5"
  by (simp add: ex_rows_def)

lemma upt_0_5: "[0..<5] = [0, Suc 0, 2, 3, 4]"
  by code_simp

lemma ex_z: "z_col ols win_cfg ex_rows = [None, None, None, Some (Fin 1), Some (Fin (- 1))]"
  by (simp add: z_col_def ex_spread ex_mean ex_std ex_length upt_0_5)

lemma ex_signal_rows:
  "signal_row ols win_cfg ex_rows 0 = None"
  "signal_row ols win_cfg ex_rows (Suc 0) = None"
  "signal_row ols win_cfg ex_rows 2 = None"
  "signal_row ols win_cfg ex_rows 3 = Some (ex_signal ! 0)"
  "signal_row ols win_cfg ex_rows 4 = Some (ex_signal ! 1)"
  by (simp_all add: signal_row_def ex_beta ex_alpha ex_spread ex_mean ex_std ex_z)
     (simp_all add: ex_rows_def ex_signal_def)

lemma ex_signal_frame: "signal_frame ols win_cfg ex_rows = ex_signal"
  by (simp add: signal_frame_def ex_length upt_0_5 List.map_filter_simps ex_signal_rows)
     (simp add: ex_signal_def)

lemma ex_prepare_data: "prepare_data ols win_cfg ex_a ex_b = Inr ex_signal"
proof -
  have "ex_rows \<noteq> []" by (simp add: ex_rows_def)
  moreover have "hedge_window win_cfg = 2" "spread_window win_cfg = 2"
    by (simp_all add: win_cfg_def)
  ultimately show ?thesis
    by (simp add: prepare_data_def ex_xy_frame ex_signal_frame ex_hedge)
qed

text \<open>
  A zero close: the row is kept with \<open>x = -inf\<close>, the first window that holds it makes the
  fit raise, and \<open>prepare_data\<close> and \<open>run\<close> raise with it.
\<close>

lemma zero_close_kept:
  "map xy_ts (xy_frame win_cfg ex_a zero_b) = [10, 11, 12, 13, 14]"
  "map xy_x (xy_frame win_cfg ex_a zero_b) = [Fin 0, NInf, Fin 2, Fin 3, Fin 4]"
  by (simp_all add: xy_frame_def win_cfg_def default_config_def ex_a_def zero_b_def
      index_intersection_def loc_close_def x_col_def y_col_def Let_def
      List.map_filter_simps)

lemma zero_close_raises:
  "prepare_data ols win_cfg ex_a zero_b = Inl LinAlgError"
  "run ols win_cfg ex_a zero_b = Inl LinAlgError"
proof -
  have f: "xy_frame win_cfg ex_a zero_b \<noteq> []"
    using zero_close_kept(1) by auto
  have y: "map xy_y (xy_frame win_cfg ex_a zero_b) = [Fin 0, Fin 1, Fin 0, Fin 2, Fin 1]"
    by (simp add: xy_frame_def win_cfg_def default_config_def ex_a_def zero_b_def
      index_intersection_def loc_close_def x_col_def y_col_def Let_def
      List.map_filter_simps)
  have h: "hedge_window win_cfg = 2" by (simp add: win_cfg_def)
  have e: "first_error (hedge_fit ols 2 [Fin 0, NInf, Fin 2, Fin 3, Fin 4]
                          [Fin 0, Fin 1, Fin 0, Fin 2, Fin 1]) = Some LinAlgError"
    by (simp add: hedge_fit_def upt_0_5 iloc_def ols_def)
  show p: "prepare_data ols win_cfg ex_a zero_b = Inl LinAlgError"
    using f by (simp add: prepare_data_def Let_def h zero_close_kept(2) y e)
  show "run ols win_cfg ex_a zero_b = Inl LinAlgError"
    by (simp add: run_def p)
qed

subsection \<open>No lookahead in the hedge regression\<close>

lemma hedge_fit_prefix:
  fixes rows rows' :: "xy_row list"
  assumes "take i rows = take i rows'" and "i < length rows" and "i < length rows'"
  shows "hedge_fit polyfit hw (map xy_x rows) (map xy_y rows) ! i =
         hedge_fit polyfit hw (map xy_x rows') (map xy_y rows') ! i"
proof -
  have "iloc (i - hw) i rows = iloc (i - hw) i rows'"
    using iloc_take [of i i "i - hw" rows] iloc_take [of i i "i - hw" rows'] assms(1)
    by simp
  then have "iloc (i - hw) i (map f rows) = iloc (i - hw) i (map f rows')" for f :: "xy_row \<Rightarrow> xfloat"
    by (simp add: iloc_map)
  then show ?thesis
    using assms(2,3) by (simp add: hedge_fit_nth)
qed

lemma hedge_cols_prefix:
  assumes "take i rows = take i rows'" and "i < length rows" and "i < length rows'"
  shows "beta_col polyfit cfg rows ! i = beta_col polyfit cfg rows' ! i"
    and "alpha_col polyfit cfg rows ! i = alpha_col polyfit cfg rows' ! i"
  using hedge_fit_prefix [OF assms, of polyfit "nat (hedge_window cfg)"] assms(2,3)
  by (simp_all add: beta_col_def alpha_col_def)

text \<open>
  Claim C1. In the frame the regression loop runs over (after the \<open>dropna\<close> of line 62),
  the fit at row \<open>i\<close> is NaN for \<open>i < hedge_window\<close> and otherwise the outcome of
  \<open>polyfit\<close> over exactly the \<open>hedge_window\<close> rows \<open>i - hedge_window, ..., i - 1\<close>; \<open>beta\<close>
  and \<open>alpha\<close> at \<open>i\<close> are its coefficients. Two frames that agree on all rows before \<open>i\<close>
  therefore have the same fit, \<open>beta\<close> and \<open>alpha\<close> at \<open>i\<close>, whatever their rows at and
  after \<open>i\<close> are.
\<close>

theorem no_lookahead:
  assumes "i < length rows" and "i < length rows'" and "take i rows = take i rows'"
  shows "beta_col polyfit cfg rows ! i = beta_col polyfit cfg rows' ! i
       \<and> alpha_col polyfit cfg rows ! i = alpha_col polyfit cfg rows' ! i
       \<and> hedge_fit polyfit (nat (hedge_window cfg)) (map xy_x rows) (map xy_y rows) ! i =
           hedge_fit polyfit (nat (hedge_window cfg)) (map xy_x rows') (map xy_y rows') ! i
       \<and> hedge_fit polyfit (nat (hedge_window cfg)) (map xy_x rows) (map xy_y rows) ! i =
           (if i < nat (hedge_window cfg) then Inr (None, None)
            else polyfit (map xy_x (iloc (i - nat (hedge_window cfg)) i rows))
                         (map xy_y (iloc (i - nat (hedge_window cfg)) i rows)))
       \<and> (beta_col polyfit cfg rows ! i, alpha_col polyfit cfg rows ! i) =
           (case hedge_fit polyfit (nat (hedge_window cfg)) (map xy_x rows) (map xy_y rows) ! i of
              Inl e \<Rightarrow> (None, None)
            | Inr ba \<Rightarrow> ba)
       \<and> (nat (hedge_window cfg) \<le> i \<longrightarrow>
            iloc (i - nat (hedge_window cfg)) i rows =
              map (\<lambda>j. rows ! j) [i - nat (hedge_window cfg)..<i]
            \<and> length (iloc (i - nat (hedge_window cfg)) i rows) = nat (hedge_window cfg))"
proof -
  let ?hw = "nat (hedge_window cfg)"
  have fit: "hedge_fit polyfit ?hw (map xy_x rows) (map xy_y rows) ! i =
        (if i < ?hw then Inr (None, None)
         else polyfit (map xy_x (iloc (i - ?hw) i rows)) (map xy_y (iloc (i - ?hw) i rows)))"
    using assms(1) by (simp add: hedge_fit_nth iloc_map)
  have cols: "(beta_col polyfit cfg rows ! i, alpha_col polyfit cfg rows ! i) =
        (case hedge_fit polyfit ?hw (map xy_x rows) (map xy_y rows) ! i of
           Inl e \<Rightarrow> (None, None) | Inr ba \<Rightarrow> ba)"
    using assms(1) by (simp add: beta_col_def alpha_col_def split: sum.splits)
  have nths: "?hw \<le> i \<longrightarrow>
      iloc (i - ?hw) i rows = map (\<lambda>j. rows ! j) [i - ?hw..<i]
      \<and> length (iloc (i - ?hw) i rows) = ?hw"
    using assms(1) iloc_nths [of "i - ?hw" i rows] by simp
  from hedge_fit_prefix [OF assms(3,1,2), of polyfit ?hw]
    hedge_cols_prefix [OF assms(3,1,2), of polyfit cfg] fit cols nths
  show ?thesis by simp
qed

theorem no_lookahead_witness:
  "2 < length ex_rows \<and> 2 < length ex_rows_alt \<and> take 2 ex_rows = take 2 ex_rows_alt
   \<and> ex_rows ! 2 \<noteq> ex_rows_alt ! 2
   \<and> beta_col ols win_cfg ex_rows_alt ! 2 = Some 1
   \<and> alpha_col ols win_cfg ex_rows_alt ! 2 = Some 0"
proof -
  have h1: "2 < length ex_rows" by (simp add: ex_rows_def)
  have h2: "2 < length ex_rows_alt" by (simp add: ex_rows_alt_def)
  have h3: "take 2 ex_rows = take 2 ex_rows_alt"
    by (simp add: ex_rows_def ex_rows_alt_def)
  have d: "ex_rows ! 2 \<noteq> ex_rows_alt ! 2"
    by (simp add: ex_rows_def ex_rows_alt_def)
  from no_lookahead [OF h1 h2 h3, of ols win_cfg]
  have "beta_col ols win_cfg ex_rows_alt ! 2 = Some 1
      \<and> alpha_col ols win_cfg ex_rows_alt ! 2 = Some 0"
    by (simp add: ex_beta ex_alpha)
  with h1 h2 h3 d show ?thesis by blast
qed

subsection \<open>Warm-up\<close>

lemma those_eq_None: "those xs = None \<longleftrightarrow> None \<in> set xs"
  by (induction xs) (auto split: option.splits)

lemma those_map_Some [simp]: "those (map Some vs) = Some vs"
  by (induction vs) simp_all

lemma those_length: "those xs = Some vs \<Longrightarrow> length vs = length xs"
  by (induction xs arbitrary: vs) (auto split: option.splits)

lemma those_nth: "those xs = Some vs \<Longrightarrow> k < length xs \<Longrightarrow> xs ! k = Some (vs ! k)"
proof (induction xs arbitrary: vs k)
  case Nil
  then show ?case by simp
next
  case (Cons a xs)
  then show ?case by (cases k) (auto split: option.splits)
qed

lemma iloc_length: "lo \<le> hi \<Longrightarrow> hi \<le> length xs \<Longrightarrow> length (iloc lo hi xs) = hi - lo"
  by (simp add: iloc_def)

lemma fin_of_eq_Some: "fin_of v = Some a \<longleftrightarrow> v = Some (Fin a)"
  by (cases v rule: fin_of.cases) auto

lemma rolling_nth:
  "i < length xs \<Longrightarrow>
   rolling w f xs ! i =
     (if i + 1 < w then None
      else (case those (map fin_of (iloc (i + 1 - w) (i + 1) xs)) of
              None \<Rightarrow> None | Some vs \<Rightarrow> f vs))"
  by (simp add: rolling_def)

lemma rolling_None:
  assumes "i < length xs" and "j \<le> i" and "i + 1 \<le> j + w" and "fin_of (xs ! j) = None"
  shows "rolling w f xs ! i = None"
proof (cases "i + 1 < w")
  case True
  with assms(1) show ?thesis by (simp add: rolling_nth)
next
  case False
  then have "iloc (i + 1 - w) (i + 1) xs = map (\<lambda>j. xs ! j) [i + 1 - w..<i + 1]"
    using assms(1) by (intro iloc_nths) simp_all
  moreover have "j \<in> set [i + 1 - w..<i + 1]"
    using assms(2,3) by auto
  ultimately have "None \<in> set (map fin_of (iloc (i + 1 - w) (i + 1) xs))"
    using assms(4) by (metis (no_types, lifting) image_eqI set_map)
  then show ?thesis
    using assms(1) False by (simp add: rolling_nth those_eq_None [THEN iffD2])
qed

text \<open>A defined rolling aggregate comes from a complete window of finite values.\<close>

lemma rolling_SomeD:
  assumes "i < length xs" and "rolling w f xs ! i = Some r"
  shows "w \<le> i + 1
       \<and> (\<exists>vs. length vs = w \<and> f vs = Some r
              \<and> (\<forall>k < w. xs ! (i + 1 - w + k) = Some (Fin (vs ! k))))"
proof -
  let ?win = "iloc (i + 1 - w) (i + 1) xs"
  from assms have w: "w \<le> i + 1"
    by (auto simp: rolling_nth split: if_splits)
  from assms w obtain vs where vs: "those (map fin_of ?win) = Some vs" and f: "f vs = Some r"
    by (auto simp: rolling_nth split: option.splits)
  have len: "length ?win = w"
    using assms(1) w by (simp add: iloc_length)
  have lvs: "length vs = w"
    using those_length [OF vs] len by simp
  have "xs ! (i + 1 - w + k) = Some (Fin (vs ! k))" if "k < w" for k
  proof -
    have "map fin_of ?win ! k = Some (vs ! k)"
      using those_nth [OF vs] that len by simp
    moreover have "?win ! k = xs ! (i + 1 - w + k)"
      using that assms(1) w by (simp add: iloc_def)
    ultimately show ?thesis
      using that len by (simp add: fin_of_eq_Some)
  qed
  with w lvs f show ?thesis by blast
qed

lemma rolling_Some:
  assumes "i < length xs" and "w \<le> i + 1"
      and "\<forall>j. i + 1 - w \<le> j \<and> j \<le> i \<longrightarrow> fin_of (xs ! j) \<noteq> None"
  shows "\<exists>vs. length vs = w \<and> rolling w f xs ! i = f vs"
proof -
  let ?win = "iloc (i + 1 - w) (i + 1) xs"
  have win: "?win = map (\<lambda>j. xs ! j) [i + 1 - w..<i + 1]"
    using assms(1) by (intro iloc_nths) simp_all
  then have "None \<notin> set (map fin_of ?win)"
    using assms(3) by auto
  then obtain vs where vs: "those (map fin_of ?win) = Some vs"
    using those_eq_None [of "map fin_of ?win"] by auto
  have "length ?win = w"
    using assms(1,2) by (simp add: iloc_length)
  then have "length vs = w"
    using those_length [OF vs] by simp
  moreover have "rolling w f xs ! i = f vs"
    using assms(1,2) vs by (simp add: rolling_nth)
  ultimately show ?thesis by blast
qed

lemma spread_col_nth:
  "i < length rows \<Longrightarrow>
   spread_col polyfit cfg rows ! i =
     (if use_log_price_spread cfg
      then fsub (Some (xy_y (rows ! i)))
             (fadd (of_fin (alpha_col polyfit cfg rows ! i))
                (fmul (of_fin (beta_col polyfit cfg rows ! i)) (Some (xy_x (rows ! i)))))
      else fsub (Some (xy_y (rows ! i)))
             (fmul (of_fin (beta_col polyfit cfg rows ! i)) (Some (xy_x (rows ! i)))))"
  by (simp add: spread_col_def Let_def)

lemma z_col_nth:
  "i < length rows \<Longrightarrow>
   z_col polyfit cfg rows ! i =
     fdiv (fsub (spread_col polyfit cfg rows ! i) (of_fin (spread_mean_col polyfit cfg rows ! i)))
          (of_fin (spread_std_col polyfit cfg rows ! i))"
  by (simp add: z_col_def)

lemma beta_col_warm_up:
  "i < length rows \<Longrightarrow> i < nat (hedge_window cfg) \<Longrightarrow> beta_col polyfit cfg rows ! i = None"
  by (simp add: beta_col_def hedge_fit_nth)

lemma spread_col_warm_up:
  "i < length rows \<Longrightarrow> i < nat (hedge_window cfg) \<Longrightarrow> spread_col polyfit cfg rows ! i = None"
  by (simp add: spread_col_nth beta_col_warm_up)

text \<open>A finite spread has finite \<open>x\<close> and \<open>y\<close> and a defined \<open>beta\<close>.\<close>

lemma xadd_Fin_D: "xadd u v = Some (Fin c) \<Longrightarrow> \<exists>a b. u = Fin a \<and> v = Fin b \<and> c = a + b"
  by (cases u; cases v) auto

lemma xmul_Fin_D: "xmul u v = Some (Fin c) \<Longrightarrow> \<exists>a b. u = Fin a \<and> v = Fin b \<and> c = a * b"
  by (cases u; cases v) (auto split: if_splits)

lemma xneg_Fin_D: "xneg v = Fin b \<Longrightarrow> v = Fin (- b)"
  by (cases v) auto

lemma spread_col_Fin_D:
  assumes "i < length rows" and "spread_col polyfit cfg rows ! i = Some (Fin s)"
  shows "\<exists>x y b. xy_x (rows ! i) = Fin x \<and> xy_y (rows ! i) = Fin y
              \<and> beta_col polyfit cfg rows ! i = Some b"
proof (cases "use_log_price_spread cfg")
  case True
  with assms have "fsub (Some (xy_y (rows ! i)))
             (fadd (of_fin (alpha_col polyfit cfg rows ! i))
                (fmul (of_fin (beta_col polyfit cfg rows ! i)) (Some (xy_x (rows ! i)))))
        = Some (Fin s)"
    by (simp add: spread_col_nth)
  then show ?thesis
    by (cases "alpha_col polyfit cfg rows ! i"; cases "beta_col polyfit cfg rows ! i")
       (auto dest!: xadd_Fin_D xmul_Fin_D xneg_Fin_D
          split: option.splits simp: fsub_def fadd_def)
next
  case False
  with assms have "fsub (Some (xy_y (rows ! i)))
             (fmul (of_fin (beta_col polyfit cfg rows ! i)) (Some (xy_x (rows ! i))))
        = Some (Fin s)"
    by (simp add: spread_col_nth)
  then show ?thesis
    by (cases "beta_col polyfit cfg rows ! i")
       (auto dest!: xadd_Fin_D xmul_Fin_D xneg_Fin_D
          split: option.splits simp: fsub_def)
qed

text \<open>Rows before the warm-up is complete are dropped.\<close>

lemma signal_row_warm_up:
  assumes "i < length rows"
      and "i < nat (hedge_window cfg) + nat (spread_window cfg) - 1"
  shows "signal_row polyfit cfg rows i = None"
proof -
  let ?hw = "nat (hedge_window cfg)" and ?sw = "nat (spread_window cfg)"
  consider "i < ?hw" | "i + 1 < ?sw" | "?hw \<le> i" "?sw \<le> i + 1"
    by linarith
  then show ?thesis
  proof cases
    case 1
    with assms(1) show ?thesis
      by (simp add: signal_row_def beta_col_warm_up)
  next
    case 2
    with assms(1) have "spread_mean_col polyfit cfg rows ! i = None"
      by (simp add: spread_mean_col_def rolling_nth)
    then show ?thesis
      by (simp add: signal_row_def split: option.splits)
  next
    case 3
    let ?j = "i + 1 - ?sw"
    have j1: "?j \<le> i" using 3 assms(2) by linarith
    have j2: "i + 1 \<le> ?j + ?sw" using 3 by linarith
    have j3: "?j < ?hw" using 3 assms(2) by linarith
    have "spread_col polyfit cfg rows ! ?j = None"
      using assms(1) j1 j3 by (intro spread_col_warm_up) simp_all
    then have "spread_mean_col polyfit cfg rows ! i = None"
      unfolding spread_mean_col_def
      using assms(1) j1 j2 by (intro rolling_None [where j = ?j]) simp_all
    then show ?thesis
      by (simp add: signal_row_def split: option.splits)
  qed
qed

text \<open>A zero population deviation means that all values equal the mean.\<close>

lemma sum_list_nonneg_eq_0:
  fixes vs :: "real list"
  assumes "\<forall>v \<in> set vs. 0 \<le> v" and "sum_list vs = 0"
  shows "\<forall>v \<in> set vs. v = 0"
  using assms
proof (induction vs)
  case Nil
  then show ?case by simp
next
  case (Cons a vs)
  then have "0 \<le> a" "0 \<le> sum_list vs" "a + sum_list vs = 0"
    by (auto intro: sum_list_nonneg)
  then have "a = 0" "sum_list vs = 0" by linarith+
  with Cons show ?case by auto
qed

lemma pop_std_zero:
  assumes "pop_std vs = Some 0" and "mean vs = Some m" and "v \<in> set vs"
  shows "v = m"
proof -
  from assms(1) have ne: "vs \<noteq> []"
    by (auto simp: pop_std_def)
  with assms(2) have m: "m = sum_list vs / real (length vs)"
    by (simp add: mean_def)
  from assms(1) ne m have "sum_list (map (\<lambda>v. (v - m)\<^sup>2) vs) / real (length vs) = 0"
    by (simp add: pop_std_def Let_def)
  with ne have "sum_list (map (\<lambda>v. (v - m)\<^sup>2) vs) = 0"
    by simp
  then have "\<forall>w \<in> set (map (\<lambda>v. (v - m)\<^sup>2) vs). w = 0"
    by (intro sum_list_nonneg_eq_0) auto
  with assms(3) have "(v - m)\<^sup>2 = 0" by auto
  then show ?thesis by simp
qed

text \<open>
  In a frame built by \<open>xy_frame\<close>, a row with a finite \<open>x\<close> has a finite price of B, and a
  row with a finite \<open>y\<close> a finite price of A.
\<close>

lemma xlog_Fin_D: "xlog u = Some (Fin c) \<Longrightarrow> \<exists>a. u = Fin a \<and> 0 < a"
  by (cases u) (auto split: if_splits)

lemma xdiv_pos_D: "xdiv u v = Some (Fin c) \<Longrightarrow> 0 < c \<Longrightarrow> \<exists>a. u = Fin a"
  by (cases u; cases v) (auto split: if_splits)

lemma log_col_Fin_D:
  assumes "i < length ps"
      and "(if lg then map flog ps
            else map (\<lambda>(c, p). flog (fdiv c p)) (zip ps (shift1 ps))) ! i = Some (Fin x)"
  shows "\<exists>a. ps ! i = Some (Fin a)"
proof (cases lg)
  case True
  with assms show ?thesis
    by (cases "ps ! i") (auto dest: xlog_Fin_D)
next
  case False
  have len: "length (shift1 ps) = length ps"
    by (simp add: shift1_def)
  from False assms len have "flog (fdiv (ps ! i) (shift1 ps ! i)) = Some (Fin x)"
    by simp
  then obtain u where u: "fdiv (ps ! i) (shift1 ps ! i) = Some u" "xlog u = Some (Fin x)"
    by (cases "fdiv (ps ! i) (shift1 ps ! i)") auto
  from xlog_Fin_D [OF u(2)] obtain c where c: "u = Fin c" "0 < c" by blast
  from u(1) c show ?thesis
    by (cases "ps ! i"; cases "shift1 ps ! i") (auto dest: xdiv_pos_D)
qed

lemma set_map_filter: "set (List.map_filter g xs) = {y. \<exists>x \<in> set xs. g x = Some y}"
  by (induction xs) (auto simp: List.map_filter_simps split: option.splits)

lemma xy_frame_finite:
  assumes "r \<in> set (xy_frame cfg df_a df_b)"
  shows "(\<forall>x. xy_x r = Fin x \<longrightarrow> (\<exists>b. xy_price_b r = Fin b))
       \<and> (\<forall>y. xy_y r = Fin y \<longrightarrow> (\<exists>a. xy_price_a r = Fin a))"
proof -
  let ?idx = "index_intersection df_a df_b"
  let ?pa = "map (loc_close df_a) ?idx" and ?pb = "map (loc_close df_b) ?idx"
  let ?g = "\<lambda>i. case (?pa ! i, ?pb ! i, x_col cfg ?pb ! i, y_col cfg ?pa ! i) of
               (Some a, Some b, Some x, Some y) \<Rightarrow>
                 Some \<lparr> xy_ts = ?idx ! i, xy_price_a = a, xy_price_b = b, xy_x = x, xy_y = y \<rparr>
             | _ \<Rightarrow> None"
  have "xy_frame cfg df_a df_b = List.map_filter ?g [0..<length ?idx]"
    by (simp only: xy_frame_def Let_def)
  with assms obtain i where i: "i < length ?idx"
    and r: "(case (?pa ! i, ?pb ! i, x_col cfg ?pb ! i, y_col cfg ?pa ! i) of
               (Some a, Some b, Some x, Some y) \<Rightarrow>
                 Some \<lparr> xy_ts = ?idx ! i, xy_price_a = a, xy_price_b = b, xy_x = x, xy_y = y \<rparr>
             | _ \<Rightarrow> None) = Some r"
    by (auto simp only: set_map_filter mem_Collect_eq set_upt atLeastLessThan_iff)
  from r obtain a b x y where v: "?pa ! i = Some a" "?pb ! i = Some b"
      "x_col cfg ?pb ! i = Some x" "y_col cfg ?pa ! i = Some y"
      and r': "r = \<lparr> xy_ts = ?idx ! i, xy_price_a = a, xy_price_b = b, xy_x = x, xy_y = y \<rparr>"
    by (auto split: option.splits)
  have "\<exists>b'. b = Fin b'" if "x = Fin x'" for x'
    using log_col_Fin_D [of i ?pb "use_log_price_spread cfg" x'] i v(2,3) that
    by (simp add: x_col_def)
  moreover have "\<exists>a'. a = Fin a'" if "y = Fin y'" for y'
    using log_col_Fin_D [of i ?pa "use_log_price_spread cfg" y'] i v(1,4) that
    by (simp add: y_col_def)
  ultimately show ?thesis
    by (simp add: r')
qed

text \<open>
  The rolling mean and deviation of a row are aggregates of the same window, which ends
  with the row's own spread.
\<close>

lemma rolling_stats:
  assumes "i < length rows"
      and "spread_mean_col polyfit cfg rows ! i = Some m"
      and "spread_std_col polyfit cfg rows ! i = Some sd"
  shows "\<exists>vs s. vs \<noteq> [] \<and> mean vs = Some m \<and> pop_std vs = Some sd \<and> s \<in> set vs
              \<and> spread_col polyfit cfg rows ! i = Some (Fin s)"
proof -
  let ?sw = "nat (spread_window cfg)" and ?xs = "spread_col polyfit cfg rows"
  have len: "i < length ?xs" using assms(1) by simp
  from rolling_SomeD [OF len assms(2) [unfolded spread_mean_col_def]] obtain vs where
    w: "?sw \<le> i + 1" and vs: "length vs = ?sw" "mean vs = Some m"
      "\<forall>k < ?sw. ?xs ! (i + 1 - ?sw + k) = Some (Fin (vs ! k))"
    by blast
  from rolling_SomeD [OF len assms(3) [unfolded spread_std_col_def]] obtain vs' where
    vs': "length vs' = ?sw" "pop_std vs' = Some sd"
      "\<forall>k < ?sw. ?xs ! (i + 1 - ?sw + k) = Some (Fin (vs' ! k))"
    by blast
  have "vs' = vs"
    using vs(1,3) vs'(1,3) by (intro nth_equalityI) auto
  from vs(2) have ne: "vs \<noteq> []" by (auto simp: mean_def)
  then have pos: "?sw - 1 < ?sw" using vs(1) by (cases vs) auto
  have "i + 1 - ?sw + (?sw - 1) = i"
    using w pos by linarith
  with vs(3) pos have "?xs ! i = Some (Fin (vs ! (?sw - 1)))"
    by (metis (no_types, lifting))
  moreover have "vs ! (?sw - 1) \<in> set vs"
    using pos vs(1) by simp
  ultimately show ?thesis
    using ne vs(2) vs'(2) \<open>vs' = vs\<close> by blast
qed

text \<open>
  The conversion at line 92 is faithful to \<^verbatim>\<open>dropna()\<close>: a row of the frame is dropped
  exactly when one of its columns is NaN; a row without NaN has finite values only.
\<close>

lemma signal_row_dropna:
  assumes "rows = xy_frame cfg df_a df_b" and "i < length rows"
  shows "signal_row polyfit cfg rows i = None \<longleftrightarrow>
           beta_col polyfit cfg rows ! i = None \<or> alpha_col polyfit cfg rows ! i = None
           \<or> spread_col polyfit cfg rows ! i = None \<or> spread_mean_col polyfit cfg rows ! i = None
           \<or> spread_std_col polyfit cfg rows ! i = None \<or> z_col polyfit cfg rows ! i = None"
    (is "?L \<longleftrightarrow> ?R")
proof
  assume ?R
  then show ?L
    by (auto simp: signal_row_def split: option.splits)
next
  assume l: ?L
  show ?R
  proof (rule ccontr)
    assume "\<not> ?R"
    then obtain b a u m sd w where c: "beta_col polyfit cfg rows ! i = Some b"
        "alpha_col polyfit cfg rows ! i = Some a" "spread_col polyfit cfg rows ! i = Some u"
        "spread_mean_col polyfit cfg rows ! i = Some m"
        "spread_std_col polyfit cfg rows ! i = Some sd" "z_col polyfit cfg rows ! i = Some w"
      by auto
    from rolling_stats [OF assms(2) c(4,5)] obtain vs s where
      vs: "mean vs = Some m" "pop_std vs = Some sd" "s \<in> set vs"
        "spread_col polyfit cfg rows ! i = Some (Fin s)"
      by blast
    have sd: "sd \<noteq> 0"
    proof
      assume "sd = 0"
      with pop_std_zero [OF _ vs(1,3)] vs(2) have "s = m" by simp
      with c(6) vs(4) c(4,5) \<open>sd = 0\<close> assms(2) show False
        by (simp add: z_col_nth)
    qed
    then have z: "z_col polyfit cfg rows ! i = Some (Fin ((s - m) / sd))"
      using assms(2) vs(4) c(4,5) by (simp add: z_col_nth)
    from spread_col_Fin_D [OF assms(2) vs(4)] obtain x y where
      xy: "xy_x (rows ! i) = Fin x" "xy_y (rows ! i) = Fin y"
      by blast
    have "rows ! i \<in> set (xy_frame cfg df_a df_b)"
      using assms by simp
    from xy_frame_finite [OF this] xy obtain pa pb where
      p: "xy_price_a (rows ! i) = Fin pa" "xy_price_b (rows ! i) = Fin pb"
      by blast
    from c(1,2,4,5) vs(4) z xy p have "signal_row polyfit cfg rows i \<noteq> None"
      by (simp add: signal_row_def)
    with l show False by simp
  qed
qed

lemma map_filter_append:
  "List.map_filter f (xs @ ys) = List.map_filter f xs @ List.map_filter f ys"
  by (simp add: List.map_filter_def)

lemma map_filter_all_None:
  "(\<And>x. x \<in> set xs \<Longrightarrow> f x = None) \<Longrightarrow> List.map_filter f xs = []"
  by (simp add: List.map_filter_def filter_empty_conv)

lemma map_filter_upt_skip:
  assumes "\<And>i. i < k \<Longrightarrow> i < n \<Longrightarrow> f i = None"
  shows "List.map_filter f [0..<n] = List.map_filter f [k..<n]"
proof (cases "k \<le> n")
  case True
  then have "[0..<n] = [0..<k] @ [k..<n]"
    using upt_add_eq_append [of 0 k "n - k"] by simp
  moreover have "List.map_filter f [0..<k] = []"
    using assms True by (intro map_filter_all_None) simp
  ultimately show ?thesis by (simp add: map_filter_append)
next
  case False
  then have "List.map_filter f [0..<n] = []"
    using assms by (intro map_filter_all_None) simp
  with False show ?thesis by (simp add: List.map_filter_simps)
qed

lemma map_map_filter_all_Some:
  "(\<And>x. x \<in> set xs \<Longrightarrow> \<exists>r. f x = Some r \<and> g r = h x) \<Longrightarrow>
   map g (List.map_filter f xs) = map h xs"
proof (induction xs)
  case Nil
  then show ?case by (simp add: List.map_filter_simps)
next
  case (Cons a xs)
  from Cons.prems [of a] obtain r where r: "f a = Some r" "g r = h a" by auto
  have "map g (List.map_filter f xs) = map h xs"
    using Cons.prems by (intro Cons.IH) simp
  with r show ?case by (simp add: List.map_filter_simps)
qed

lemma drop_map_nth: "drop k (map f xs) = map (\<lambda>i. f (xs ! i)) [k..<length xs]"
  by (intro nth_equalityI) simp_all


lemma signal_frame_warm_up:
  "signal_frame polyfit cfg rows =
     List.map_filter (signal_row polyfit cfg rows)
       [nat (hedge_window cfg) + nat (spread_window cfg) - 1..<length rows]"
  unfolding signal_frame_def
  by (intro map_filter_upt_skip signal_row_warm_up)

lemma signal_row_ts:
  "signal_row polyfit cfg rows i = Some r \<Longrightarrow> ts r = xy_ts (rows ! i)"
  by (auto simp: signal_row_def split: option.splits xfloat.splits)

lemma fit_defined_iff: "fit_defined r \<longleftrightarrow> (\<exists>b a. r = Inr (Some b, Some a))"
  by (auto simp: fit_defined_def split: sum.splits option.splits)

lemma is_Fin_iff: "is_Fin u \<longleftrightarrow> (\<exists>a. u = Fin a)"
  by (cases u) (simp_all add: is_Fin_def)

lemma non_degenerateD:
  assumes "non_degenerate polyfit cfg rows" and "i < length rows"
  shows "nat (hedge_window cfg) \<le> i \<Longrightarrow>
           \<exists>b a x y. hedge_fit polyfit (nat (hedge_window cfg)) (map xy_x rows) (map xy_y rows) ! i
                       = Inr (Some b, Some a)
                   \<and> xy_x (rows ! i) = Fin x \<and> xy_y (rows ! i) = Fin y"
    and "nat (hedge_window cfg) + nat (spread_window cfg) - 1 \<le> i \<Longrightarrow>
           spread_std_col polyfit cfg rows ! i \<noteq> Some 0"
proof -
  from assms have *: "(nat (hedge_window cfg) \<le> i \<longrightarrow>
               fit_defined
                 (hedge_fit polyfit (nat (hedge_window cfg)) (map xy_x rows) (map xy_y rows) ! i)
               \<and> is_Fin (xy_x (rows ! i)) \<and> is_Fin (xy_y (rows ! i)))
            \<and> (nat (hedge_window cfg) + nat (spread_window cfg) - 1 \<le> i \<longrightarrow>
               spread_std_col polyfit cfg rows ! i \<noteq> Some 0)"
    unfolding non_degenerate_def list_all_iff by simp
  show "nat (hedge_window cfg) \<le> i \<Longrightarrow>
           \<exists>b a x y. hedge_fit polyfit (nat (hedge_window cfg)) (map xy_x rows) (map xy_y rows) ! i
                       = Inr (Some b, Some a)
                   \<and> xy_x (rows ! i) = Fin x \<and> xy_y (rows ! i) = Fin y"
    using * unfolding fit_defined_iff is_Fin_iff by blast
  show "nat (hedge_window cfg) + nat (spread_window cfg) - 1 \<le> i \<Longrightarrow>
           spread_std_col polyfit cfg rows ! i \<noteq> Some 0"
    using * by blast
qed

lemma first_error_None: "first_error rs = None \<longleftrightarrow> (\<forall>r \<in> set rs. \<exists>v. r = Inr v)"
  by (induction rs rule: first_error.induct) auto

lemma non_degenerate_no_error:
  assumes "non_degenerate polyfit cfg rows"
  shows "first_error (hedge_fit polyfit (nat (hedge_window cfg)) (map xy_x rows) (map xy_y rows))
         = None"
proof -
  let ?hf = "hedge_fit polyfit (nat (hedge_window cfg)) (map xy_x rows) (map xy_y rows)"
  have "\<exists>v. ?hf ! i = Inr v" if "i < length rows" for i
  proof (cases "i < nat (hedge_window cfg)")
    case True
    with that show ?thesis by (simp add: hedge_fit_nth)
  next
    case False
    with non_degenerateD(1) [OF assms that] show ?thesis by auto
  qed
  then have "\<forall>r \<in> set ?hf. \<exists>v. r = Inr v"
    by (auto simp: in_set_conv_nth)
  then show ?thesis by (simp add: first_error_None)
qed

lemma spread_col_non_degenerate:
  assumes "non_degenerate polyfit cfg rows" and "j < length rows"
      and "nat (hedge_window cfg) \<le> j"
  shows "\<exists>s. spread_col polyfit cfg rows ! j = Some (Fin s)"
proof -
  from non_degenerateD(1) [OF assms] obtain b a x y where
    f: "hedge_fit polyfit (nat (hedge_window cfg)) (map xy_x rows) (map xy_y rows) ! j
          = Inr (Some b, Some a)"
    and xy: "xy_x (rows ! j) = Fin x" "xy_y (rows ! j) = Fin y"
    by blast
  from beta_alpha_nth [OF assms(2) f] xy assms(2) show ?thesis
    by (simp add: spread_col_nth)
qed

text \<open>After the warm-up every row of a non-degenerate frame is kept.\<close>

lemma signal_row_kept:
  assumes rows: "rows = xy_frame cfg df_a df_b"
      and i: "i < length rows"
      and sw: "1 \<le> spread_window cfg"
      and k: "nat (hedge_window cfg) + nat (spread_window cfg) - 1 \<le> i"
      and nd: "non_degenerate polyfit cfg rows"
  shows "\<exists>r. signal_row polyfit cfg rows i = Some r \<and> ts r = xy_ts (rows ! i)"
proof -
  let ?hw = "nat (hedge_window cfg)" and ?sw = "nat (spread_window cfg)"
  have sw': "1 \<le> ?sw" using sw by simp
  have w: "?sw \<le> i + 1" "?hw \<le> i" using k sw' by auto
  have sp: "\<forall>j. i + 1 - ?sw \<le> j \<and> j \<le> i \<longrightarrow>
              fin_of (spread_col polyfit cfg rows ! j) \<noteq> None"
  proof (intro allI impI)
    fix j assume j: "i + 1 - ?sw \<le> j \<and> j \<le> i"
    then have "j < length rows" "?hw \<le> j" using i k sw' by auto
    from spread_col_non_degenerate [OF nd this]
    show "fin_of (spread_col polyfit cfg rows ! j) \<noteq> None" by auto
  qed
  have len: "i < length (spread_col polyfit cfg rows)" using i by simp
  from rolling_Some [OF len w(1) sp, of mean] obtain vs where
    vs: "length vs = ?sw" "spread_mean_col polyfit cfg rows ! i = mean vs"
    by (auto simp: spread_mean_col_def)
  from rolling_Some [OF len w(1) sp, of pop_std] obtain vs' where
    vs': "length vs' = ?sw" "spread_std_col polyfit cfg rows ! i = pop_std vs'"
    by (auto simp: spread_std_col_def)
  have ne: "vs \<noteq> []" "vs' \<noteq> []"
    using vs(1) vs'(1) sw' by auto
  from vs ne obtain m where m: "spread_mean_col polyfit cfg rows ! i = Some m"
    by (auto simp: mean_def)
  from vs' ne obtain sd where sd: "spread_std_col polyfit cfg rows ! i = Some sd"
    by (auto simp: pop_std_def Let_def)
  from spread_col_non_degenerate [OF nd i w(2)] obtain s where
    s: "spread_col polyfit cfg rows ! i = Some (Fin s)"
    by blast
  from non_degenerateD(1) [OF nd i w(2)] obtain b a where
    "hedge_fit polyfit ?hw (map xy_x rows) (map xy_y rows) ! i = Inr (Some b, Some a)"
    by blast
  from beta_alpha_nth [OF i this] have ba: "beta_col polyfit cfg rows ! i = Some b"
      "alpha_col polyfit cfg rows ! i = Some a"
    by simp_all
  from non_degenerateD(2) [OF nd i k] sd have "sd \<noteq> 0" by simp
  then have z: "z_col polyfit cfg rows ! i = Some (Fin ((s - m) / sd))"
    using i s m sd by (simp add: z_col_nth)
  from signal_row_dropna [OF rows i, of polyfit] ba s m sd z
  obtain r where "signal_row polyfit cfg rows i = Some r"
    by auto
  with signal_row_ts [OF this] show ?thesis by blast
qed

lemma signal_frame_non_degenerate:
  assumes "rows = xy_frame cfg df_a df_b"
      and "1 \<le> spread_window cfg" and "non_degenerate polyfit cfg rows"
  shows "map ts (signal_frame polyfit cfg rows) =
           drop (nat (hedge_window cfg) + nat (spread_window cfg) - 1) (map xy_ts rows)"
proof -
  let ?k = "nat (hedge_window cfg) + nat (spread_window cfg) - 1"
  have "map ts (List.map_filter (signal_row polyfit cfg rows) [?k..<length rows]) =
        map (\<lambda>i. xy_ts (rows ! i)) [?k..<length rows]"
  proof (rule map_map_filter_all_Some)
    fix i assume "i \<in> set [?k..<length rows]"
    then have i: "i < length rows" "?k \<le> i" by auto
    show "\<exists>r. signal_row polyfit cfg rows i = Some r \<and> ts r = xy_ts (rows ! i)"
      by (rule signal_row_kept [OF assms(1) i(1) assms(2) i(2) assms(3)])
  qed
  then show ?thesis
    by (simp add: signal_frame_warm_up drop_map_nth)
qed

text \<open>
  Claim C3, as the code has it. When \<open>prepare_data\<close> returns, the rows it keeps are among
  the rows from position \<open>k = hedge_window + spread_window - 1\<close> on of the frame left by
  line 62: the first \<open>k\<close> rows are always dropped, since the spread is undefined for
  \<open>hedge_window\<close> rows and the rolling statistics need \<open>spread_window\<close> defined spreads.
  With both windows at least 1 and a non-degenerate frame, \<open>prepare_data\<close> returns and keeps
  exactly the rows from position \<open>k\<close> on.
\<close>

theorem warm_up:
  assumes "rows = xy_frame cfg df_a df_b"
      and "k = nat (hedge_window cfg) + nat (spread_window cfg) - 1"
  shows "(\<forall>df. prepare_data polyfit cfg df_a df_b = Inr df \<longrightarrow>
              df = List.map_filter (signal_row polyfit cfg rows) [k..<length rows])
       \<and> (1 \<le> hedge_window cfg \<and> 1 \<le> spread_window cfg \<and> non_degenerate polyfit cfg rows \<longrightarrow>
            (\<exists>df. prepare_data polyfit cfg df_a df_b = Inr df
                  \<and> map ts df = drop k (map xy_ts rows)))"
proof (intro conjI allI impI)
  fix df assume "prepare_data polyfit cfg df_a df_b = Inr df"
  then have "df = signal_frame polyfit cfg rows"
    using assms(1) by (auto simp: prepare_data_def Let_def split: if_splits option.splits)
  then show "df = List.map_filter (signal_row polyfit cfg rows) [k..<length rows]"
    unfolding assms(2) by (simp add: signal_frame_warm_up)
next
  assume a: "1 \<le> hedge_window cfg \<and> 1 \<le> spread_window cfg \<and> non_degenerate polyfit cfg rows"
  then have "prepare_data polyfit cfg df_a df_b = Inr (signal_frame polyfit cfg rows)"
    using assms(1) non_degenerate_no_error [of polyfit cfg rows]
    by (simp add: prepare_data_def Let_def)
  moreover have "map ts (signal_frame polyfit cfg rows) = drop k (map xy_ts rows)"
    unfolding assms(2) using signal_frame_non_degenerate [OF assms(1)] a by blast
  ultimately show "\<exists>df. prepare_data polyfit cfg df_a df_b = Inr df
                  \<and> map ts df = drop k (map xy_ts rows)"
    by blast
qed

lemma ex_non_degenerate: "non_degenerate ols win_cfg ex_rows"
proof -
  have "hedge_window win_cfg = 2" "spread_window win_cfg = 2"
    by (simp_all add: win_cfg_def)
  then show ?thesis
    by (simp add: non_degenerate_def ex_length upt_0_5 ex_hedge ex_std fit_defined_def)
       (simp add: ex_rows_def is_Fin_def)
qed

theorem warm_up_witness:
  "ex_rows = xy_frame win_cfg ex_a ex_b \<and> 1 \<le> hedge_window win_cfg
   \<and> 1 \<le> spread_window win_cfg \<and> non_degenerate ols win_cfg ex_rows
   \<and> prepare_data ols win_cfg ex_a ex_b = Inr ex_signal
   \<and> map ts ex_signal = drop 3 (map xy_ts ex_rows)"
proof -
  have h1: "ex_rows = xy_frame win_cfg ex_a ex_b" by (simp add: ex_xy_frame)
  have h2: "1 \<le> hedge_window win_cfg" by (simp add: win_cfg_def)
  have h3: "1 \<le> spread_window win_cfg" by (simp add: win_cfg_def)
  have h4: "(3 :: nat) = nat (hedge_window win_cfg) + nat (spread_window win_cfg) - 1"
    by (simp add: win_cfg_def)
  from warm_up [OF h1 h4, of ols] h2 h3 ex_non_degenerate ex_prepare_data
  have "map ts ex_signal = drop 3 (map xy_ts ex_rows)"
    by auto
  with h1 h2 h3 ex_non_degenerate ex_prepare_data show ?thesis by blast
qed

text \<open>
  The claim puts the first kept row at position \<open>max hedge_window spread_window\<close>. With
  both windows 2 on the five-bar example that is the row labelled 12; it is dropped (its
  rolling deviation is NaN, not zero), and the first kept row is the one labelled 13.
\<close>

theorem warm_up_counterexample:
  "hedge_window win_cfg = 2 \<and> spread_window win_cfg = 2
   \<and> map xy_ts (xy_frame win_cfg ex_a ex_b) = [10, 11, 12, 13, 14]
   \<and> spread_std_col ols win_cfg (xy_frame win_cfg ex_a ex_b) =
       [None, None, None, Some (5 / 2), Some 3]
   \<and> prepare_data ols win_cfg ex_a ex_b = Inr ex_signal
   \<and> map ts ex_signal = [13, 14]
   \<and> map ts ex_signal \<noteq> drop (max 2 2) [10, 11, 12, 13, 14]"
  by (simp add: ex_xy_frame ex_std ex_prepare_data)
     (simp add: win_cfg_def ex_rows_def ex_signal_def)

subsection \<open>Bars with an undefined signal\<close>

lemma map_map_filter_filter:
  "(\<And>x r. x \<in> set xs \<Longrightarrow> f x = Some r \<Longrightarrow> g r = h x) \<Longrightarrow>
   map g (List.map_filter f xs) = map h (filter (\<lambda>x. f x \<noteq> None) xs)"
proof (induction xs)
  case Nil
  then show ?case by (simp add: List.map_filter_simps)
next
  case (Cons a xs)
  have ih: "map g (List.map_filter f xs) = map h (filter (\<lambda>x. f x \<noteq> None) xs)"
    using Cons.prems by (intro Cons.IH) simp_all
  show ?case
  proof (cases "f a")
    case None
    with ih show ?thesis by (simp add: List.map_filter_simps)
  next
    case (Some r)
    with Cons.prems [of a r] have "g r = h a" by simp
    with ih Some show ?thesis by (simp add: List.map_filter_simps)
  qed
qed

lemma distinct_map_nth_filter:
  assumes "distinct xs"
  shows "distinct (map (\<lambda>i. xs ! i) (filter P [0..<length xs]))"
proof -
  have "inj_on (\<lambda>i. xs ! i) (set (filter P [0..<length xs]))"
    using assms by (auto simp: inj_on_def nth_eq_iff_index_eq)
  then show ?thesis by (simp add: distinct_map)
qed

lemma index_intersection_distinct:
  "distinct (map fst df_a) \<Longrightarrow> distinct (index_intersection df_a df_b)"
  by (simp add: index_intersection_def)

lemma xy_frame_ts:
  "map xy_ts (xy_frame cfg df_a df_b) =
     map (\<lambda>i. index_intersection df_a df_b ! i)
       (filter (\<lambda>i. (case (map (loc_close df_a) (index_intersection df_a df_b) ! i,
                            map (loc_close df_b) (index_intersection df_a df_b) ! i,
                            x_col cfg (map (loc_close df_b) (index_intersection df_a df_b)) ! i,
                            y_col cfg (map (loc_close df_a) (index_intersection df_a df_b)) ! i) of
                        (Some a, Some b, Some x, Some y) \<Rightarrow>
                          Some \<lparr> xy_ts = index_intersection df_a df_b ! i, xy_price_a = a,
                                 xy_price_b = b, xy_x = x, xy_y = y \<rparr>
                      | _ \<Rightarrow> None) \<noteq> None)
          [0..<length (index_intersection df_a df_b)])"
  unfolding xy_frame_def Let_def
  by (rule map_map_filter_filter) (auto split: option.splits)

lemma xy_frame_distinct:
  assumes "distinct (map fst df_a)"
  shows "distinct (map xy_ts (xy_frame cfg df_a df_b))"
  unfolding xy_frame_ts
  by (rule distinct_map_nth_filter) (rule index_intersection_distinct [OF assms])

lemma signal_row_z:
  "z_col polyfit cfg rows ! i = None \<Longrightarrow> signal_row polyfit cfg rows i = None"
  by (simp add: signal_row_def split: option.splits)

lemma signal_frame_ts:
  "map ts (signal_frame polyfit cfg rows) =
     map (\<lambda>i. xy_ts (rows ! i))
       (filter (\<lambda>i. signal_row polyfit cfg rows i \<noteq> None) [0..<length rows])"
  unfolding signal_frame_def
  by (rule map_map_filter_filter) (rule signal_row_ts)

lemma undefined_z_not_in_frame:
  assumes "distinct (map xy_ts rows)" and "i < length rows"
      and "z_col polyfit cfg rows ! i = None"
  shows "xy_ts (rows ! i) \<notin> set (map ts (signal_frame polyfit cfg rows))"
proof
  assume "xy_ts (rows ! i) \<in> set (map ts (signal_frame polyfit cfg rows))"
  then obtain j where j: "j < length rows" "signal_row polyfit cfg rows j \<noteq> None"
      "xy_ts (rows ! j) = xy_ts (rows ! i)"
    by (auto simp: signal_frame_ts)
  from j(1,3) assms(1,2) have "j = i"
    using nth_eq_iff_index_eq [of "map xy_ts rows" j i] by simp
  with j(2) signal_row_z [OF assms(3)] show False by simp
qed

lemma pct_change_length [simp]: "length (pct_change es) = length es"
  by (simp add: pct_change_def shift1_def)

lemma prepare_data_InrD:
  "prepare_data polyfit cfg df_a df_b = Inr df \<Longrightarrow>
   df = signal_frame polyfit cfg (xy_frame cfg df_a df_b)"
  by (auto simp: prepare_data_def Let_def split: if_splits option.splits)

lemma results_frame_ts:
  "length idx = length es \<Longrightarrow> map r_ts (results_frame idx es) = idx"
  by (intro nth_equalityI) (simp_all add: results_frame_def)

lemma results_frame_equity:
  "length idx = length es \<Longrightarrow> map equity (results_frame idx es) = es"
  by (intro nth_equalityI) (simp_all add: results_frame_def)

lemma backtest_length:
  "backtest cfg df = Inr st \<Longrightarrow> length (equity_series st) = length df"
  using bars_length [of cfg "map ts df" "init_state cfg" df st]
  by (simp add: backtest_def init_state_def)

text \<open>
  Claim C8, as the code has it. \<open>prepare_data\<close> ends with \<open>dropna()\<close>, so a bar whose \<open>z\<close>
  is undefined never reaches the loop of \<open>run\<close>: no entry or exit decision is made for
  it, and no equity point is recorded at its label. The result frame has exactly one row
  per row of the prepared frame, with the equity the loop recorded for it.
\<close>

theorem undefined_z_dropped:
  assumes "run polyfit cfg df_a df_b = Inr (results, n)"
      and "rows = xy_frame cfg df_a df_b"
      and "distinct (map fst df_a)"
      and "i < length rows"
      and "z_col polyfit cfg rows ! i = None"
  shows "xy_ts (rows ! i) \<notin> set (map r_ts results)
       \<and> map r_ts results = map ts (signal_frame polyfit cfg rows)
       \<and> (\<exists>st. backtest cfg (signal_frame polyfit cfg rows) = Inr st
               \<and> map equity results = equity_series st \<and> n = trade_count st)"
proof -
  from assms(1,2) have p: "prepare_data polyfit cfg df_a df_b = Inr (signal_frame polyfit cfg rows)"
    by (auto simp: run_def split: sum.splits dest: prepare_data_InrD)
  with assms(1) obtain st where
    st: "backtest cfg (signal_frame polyfit cfg rows) = Inr st" and
    res: "results = results_frame (map ts (signal_frame polyfit cfg rows)) (equity_series st)" and
    n: "n = trade_count st"
    by (auto simp: run_def split: sum.splits)
  have len: "length (map ts (signal_frame polyfit cfg rows)) = length (equity_series st)"
    using backtest_length [OF st] by simp
  have t: "map r_ts results = map ts (signal_frame polyfit cfg rows)"
    unfolding res by (rule results_frame_ts [OF len])
  have e: "map equity results = equity_series st"
    unfolding res by (rule results_frame_equity [OF len])
  have "distinct (map xy_ts rows)"
    unfolding assms(2) by (rule xy_frame_distinct [OF assms(3)])
  from undefined_z_not_in_frame [OF this assms(4,5)] t
  have "xy_ts (rows ! i) \<notin> set (map r_ts results)" by simp
  with t st e n show ?thesis by blast
qed

lemma ex_backtest:
  "backtest win_cfg ex_signal =
     Inr \<lparr> capital = 1000000, position = 0, entry_idx = None, sh_a = 0, sh_b = 0,
           equity_series = [1000000, 1000000], trade_count = 0 \<rparr>"
  by (simp add: backtest_def bar_defs ex_signal_def win_cfg_def default_config_def)

lemma ex_run: "run ols win_cfg ex_a ex_b = Inr (ex_run_results, 0)"
  by (simp add: run_def ex_prepare_data ex_backtest)
     (simp add: ex_signal_def ex_run_results_def results_frame_def pct_change_def shift1_def)

theorem undefined_z_dropped_witness:
  "run ols win_cfg ex_a ex_b = Inr (ex_run_results, 0)
   \<and> ex_rows = xy_frame win_cfg ex_a ex_b \<and> distinct (map fst ex_a)
   \<and> 1 < length ex_rows \<and> z_col ols win_cfg ex_rows ! 1 = None
   \<and> xy_ts (ex_rows ! 1) = 11 \<and> 11 \<notin> set (map r_ts ex_run_results)"
proof -
  have h2: "ex_rows = xy_frame win_cfg ex_a ex_b" by (simp add: ex_xy_frame)
  have h3: "distinct (map fst ex_a)" by (simp add: ex_a_def)
  have h4: "1 < length ex_rows" by (simp add: ex_length)
  have h5: "z_col ols win_cfg ex_rows ! 1 = None" by (simp add: ex_z)
  have t: "xy_ts (ex_rows ! 1) = 11" by (simp add: ex_rows_def)
  have "xy_ts (ex_rows ! 1) \<notin> set (map r_ts ex_run_results)"
    by (rule conjunct1 [OF undefined_z_dropped [OF ex_run h2 h3 h4 h5]])
  then have "11 \<notin> set (map r_ts ex_run_results)"
    unfolding t .
  with ex_run h2 h3 h4 h5 t show ?thesis by blast
qed

text \<open>
  The claim says the equity series still has a point at the label of a bar whose \<open>z\<close> is
  undefined. On the five-bar example the bar labelled 12 has its hedge ratio and its
  spread, but the rolling window of its spread is incomplete, so its \<open>z\<close> is NaN; the
  result frame has rows for the labels 13 and 14 only.
\<close>

theorem undefined_z_counterexample:
  "spread_col ols win_cfg (xy_frame win_cfg ex_a ex_b) ! 2 = Some (Fin (- 2))
   \<and> z_col ols win_cfg (xy_frame win_cfg ex_a ex_b) ! 2 = None
   \<and> xy_ts (xy_frame win_cfg ex_a ex_b ! 2) = 12
   \<and> run ols win_cfg ex_a ex_b = Inr (ex_run_results, 0)
   \<and> map r_ts ex_run_results = [13, 14]
   \<and> 12 \<notin> set (map r_ts ex_run_results)"
  by (simp add: ex_xy_frame ex_z ex_spread ex_run)
     (simp add: ex_rows_def ex_run_results_def)

subsection \<open>The Sharpe-like ratio\<close>

lemma dropna_simps [simp]:
  "dropna [] = []"
  "dropna (None # xs) = dropna xs"
  "dropna (Some v # xs) = v # dropna xs"
  by (simp_all add: dropna_def List.map_filter_simps)

lemma fsum_Fin: "fsum (map (\<lambda>v. Some (Fin (f v))) vs) = Some (Fin (sum_list (map f vs)))"
  by (induction vs) simp_all

lemma series_mean_Fin: "series_mean (map Fin vs) = of_fin (mean vs)"
  using fsum_Fin [of "\<lambda>v. v" vs]
  by (simp add: series_mean_def mean_def comp_def)

lemma series_std_Fin: "series_std (map Fin vs) = of_fin (pop_std vs)"
proof (cases "vs = []")
  case True
  then show ?thesis by (simp add: series_std_def pop_std_def)
next
  case False
  let ?m = "sum_list vs / real (length vs)"
  have avg: "series_mean (map Fin vs) = Some (Fin ?m)"
    using False by (simp add: series_mean_Fin mean_def)
  have sqr: "map (\<lambda>v. fmul (fsub (Some (Fin ?m)) (Some v)) (fsub (Some (Fin ?m)) (Some v)))
               (map Fin vs) =
             map (\<lambda>v. Some (Fin ((v - ?m)\<^sup>2))) vs"
    by (simp add: power2_eq_square algebra_simps)
  have nn: "0 \<le> sum_list (map (\<lambda>v. (v - ?m)\<^sup>2) vs) / real (length vs)"
    by (intro divide_nonneg_nonneg sum_list_nonneg) auto
  show ?thesis
    using False nn
    by (simp only: series_std_def Let_def avg sqr fsum_Fin) (simp add: pop_std_def)
qed

text \<open>With an infinity among the values the deviation is NaN.\<close>

lemma fsum_None: "None \<in> set xs \<Longrightarrow> fsum xs = None"
  by (induction xs) auto

lemma xadd_PInf_D: "xadd u v = Some PInf \<Longrightarrow> u = PInf \<or> v = PInf"
  by (cases u; cases v) simp_all

lemma xadd_NInf_D: "xadd u v = Some NInf \<Longrightarrow> u = NInf \<or> v = NInf"
  by (cases u; cases v) simp_all

lemma fsum_PInf_D: "fsum (map Some vs) = Some PInf \<Longrightarrow> PInf \<in> set vs"
proof (induction vs)
  case Nil
  then show ?case by simp
next
  case (Cons v vs)
  then show ?case
    by (cases "fsum (map Some vs)") (auto dest: xadd_PInf_D)
qed

lemma fsum_NInf_D: "fsum (map Some vs) = Some NInf \<Longrightarrow> NInf \<in> set vs"
proof (induction vs)
  case Nil
  then show ?case by simp
next
  case (Cons v vs)
  then show ?case
    by (cases "fsum (map Some vs)") (auto dest: xadd_NInf_D)
qed

lemma fsum_Fin_D: "fsum (map Some vs) = Some (Fin a) \<Longrightarrow> \<forall>v \<in> set vs. \<exists>b. v = Fin b"
proof (induction vs arbitrary: a)
  case Nil
  then show ?case by simp
next
  case (Cons v vs)
  then show ?case
    by (cases "fsum (map Some vs)") (auto dest!: xadd_Fin_D)
qed

lemma xdiv_pos:
  "0 < n \<Longrightarrow> xdiv PInf (Fin n) = Some PInf"
  "0 < n \<Longrightarrow> xdiv NInf (Fin n) = Some NInf"
  "0 < n \<Longrightarrow> xdiv (Fin a) (Fin n) = Some (Fin (a / n))"
  by simp_all

lemma series_std_infinite:
  assumes "PInf \<in> set vs \<or> NInf \<in> set vs"
  shows "series_std vs = None"
proof -
  from assms have ne: "vs \<noteq> []" by auto
  then have n: "0 < real (length vs)" by simp
  let ?avg = "series_mean vs"
  let ?sqr = "map (\<lambda>v. fmul (fsub ?avg (Some v)) (fsub ?avg (Some v))) vs"
  have "\<exists>v \<in> set vs. fsub ?avg (Some v) = None"
  proof (cases "fsum (map Some vs)")
    case None
    then have "?avg = None" using ne by (simp add: series_mean_def)
    with ne show ?thesis by (cases vs) auto
  next
    case (Some s)
    show ?thesis
    proof (cases s)
      case NInf
      with Some have "?avg = Some NInf" using ne n by (simp add: series_mean_def)
      moreover from fsum_NInf_D Some NInf have "NInf \<in> set vs" by simp
      ultimately show ?thesis by (intro bexI [of _ NInf]) simp_all
    next
      case (Fin a)
      with fsum_Fin_D Some have "\<forall>v \<in> set vs. \<exists>b. v = Fin b" by simp
      with assms show ?thesis by auto
    next
      case PInf
      with Some have "?avg = Some PInf" using ne n by (simp add: series_mean_def)
      moreover from fsum_PInf_D Some PInf have "PInf \<in> set vs" by simp
      ultimately show ?thesis by (intro bexI [of _ PInf]) simp_all
    qed
  qed
  then obtain v where v: "v \<in> set vs" "fsub ?avg (Some v) = None" by blast
  then have "fmul (fsub ?avg (Some v)) (fsub ?avg (Some v)) = None" by simp
  with v(1) have "None \<in> set ?sqr" by (force simp: image_iff)
  then have "fsum ?sqr = None" by (rule fsum_None)
  with ne show ?thesis by (simp add: series_std_def Let_def)
qed

text \<open>
  Claim C7, as the code has it. With \<open>rets\<close> the returns column without its NaN entries:
  when all of \<open>rets\<close> are finite, the Sharpe-like ratio is NaN exactly when there are fewer
  than two returns or their population standard deviation is zero, and otherwise it is
  \<open>sqrt (252 * 78) * mean / std\<close>, with the arithmetic mean and the population standard
  deviation written out; when a return is infinite (the equity before it was zero) the
  ratio is NaN, whatever the number of returns.
\<close>

theorem sharpe_defined_iff:
  fixes results :: "result_row list"
  shows "(\<forall>vs. dropna (map returns results) = map Fin vs \<longrightarrow>
            (sharpe results = None \<longleftrightarrow> length vs < 2 \<or> pop_std vs = Some 0)
          \<and> (\<not> (length vs < 2 \<or> pop_std vs = Some 0) \<longrightarrow>
               (\<exists>m s. m = sum_list vs / real (length vs)
                    \<and> s = sqrt (sum_list (map (\<lambda>r. (r - m)\<^sup>2) vs) / real (length vs))
                    \<and> s \<noteq> 0
                    \<and> sharpe results = Some (Fin (sqrt (252 * 78) * m / s)))))
       \<and> (PInf \<in> set (dropna (map returns results))
            \<or> NInf \<in> set (dropna (map returns results)) \<longrightarrow>
          sharpe results = None)"
proof (intro conjI allI impI)
  fix vs assume vs: "dropna (map returns results) = map Fin vs"
  show "sharpe results = None \<longleftrightarrow> length vs < 2 \<or> pop_std vs = Some 0"
    by (auto simp: sharpe_def Let_def vs series_std_Fin series_mean_Fin pop_std_def mean_def)
  assume "\<not> (length vs < 2 \<or> pop_std vs = Some 0)"
  then show "\<exists>m s. m = sum_list vs / real (length vs)
                    \<and> s = sqrt (sum_list (map (\<lambda>r. (r - m)\<^sup>2) vs) / real (length vs))
                    \<and> s \<noteq> 0
                    \<and> sharpe results = Some (Fin (sqrt (252 * 78) * m / s))"
    by (auto simp: sharpe_def Let_def vs series_std_Fin series_mean_Fin pop_std_def mean_def)
next
  assume "PInf \<in> set (dropna (map returns results))
            \<or> NInf \<in> set (dropna (map returns results))"
  then have "series_std (dropna (map returns results)) = None"
    by (rule series_std_infinite)
  then show "sharpe results = None"
    by (simp add: sharpe_def Let_def)
qed

lemma sqrt_ex: "sqrt (1 / 10000) = 1 / 100"
  by (rule real_sqrt_unique) (simp_all add: power2_eq_square)

lemma ex_returns: "map returns ex_results = [None, Some (Fin (1/100)), Some (Fin (3/100))]"
  by (simp add: ex_results_def results_frame_def pct_change_def shift1_def)

lemma ex_returns_std: "pop_std [1/100, 3/100] = Some (1/100)"
  by (simp add: pop_std_def Let_def power2_eq_square sqrt_ex)

theorem sharpe_defined_iff_witness:
  "dropna (map returns ex_results) = map Fin [1/100, 3/100]
   \<and> \<not> (length [1/100, 3/100 :: real] < 2 \<or> pop_std [1/100, 3/100] = Some 0)
   \<and> sharpe ex_results = Some (Fin (sqrt (252 * 78) * 2))"
proof -
  have d: "dropna (map returns ex_results) = map Fin [1/100, 3/100]"
    by (simp add: ex_returns)
  have h: "\<not> (length [1/100, 3/100 :: real] < 2 \<or> pop_std [1/100, 3/100] = Some 0)"
    by (simp add: ex_returns_std)
  from sharpe_defined_iff [of ex_results] d h
  obtain m s where m: "m = sum_list [1/100, 3/100] / real (length [1/100, 3/100 :: real])"
    and s: "s = sqrt (sum_list (map (\<lambda>r. (r - m)\<^sup>2) [1/100, 3/100])
                              / real (length [1/100, 3/100 :: real]))"
    and r: "sharpe ex_results = Some (Fin (sqrt (252 * 78) * m / s))"
    by blast
  have m': "m = 2 / 100" using m by simp
  have "s = 1 / 100" using s unfolding m' by (simp add: power2_eq_square sqrt_ex)
  with r m' d h show ?thesis by simp
qed

text \<open>
  The claim makes the ratio NaN only with fewer than two returns or a zero deviation. On
  the equity values 0, -200, -200, -400 the returns are NaN, \<open>-inf\<close>, 0 and 1: three
  returns are left after \<^verbatim>\<open>dropna()\<close>, their deviation is NaN and not zero, and the ratio
  is NaN.
\<close>

lemma inf_returns:
  "map returns inf_results = [None, Some NInf, Some (Fin 0), Some (Fin 1)]"
  by (simp add: inf_results_def results_frame_def pct_change_def shift1_def)

theorem sharpe_counterexample:
  "map returns inf_results = [None, Some NInf, Some (Fin 0), Some (Fin 1)]
   \<and> length (dropna (map returns inf_results)) = 3
   \<and> series_std (dropna (map returns inf_results)) = None
   \<and> sharpe inf_results = None"
  by (simp add: inf_returns sharpe_def Let_def)
     (simp add: series_std_def series_mean_def Let_def)

text \<open>
  The returns column that \<open>run\<close> builds: the percentage change between consecutive
  equity values, with no value on the first row.
\<close>

lemma shift1_length [simp]: "length (shift1 xs) = length xs"
  by (simp add: shift1_def)

lemma shift1_nth_Suc: "Suc j < length xs \<Longrightarrow> shift1 xs ! Suc j = xs ! j"
  by (auto simp: shift1_def nth_butlast)

lemma pct_change_nth:
  assumes "k < length es"
  shows "pct_change es ! k =
           (if k = 0 then None
            else fsub (fdiv (Some (Fin (es ! k))) (Some (Fin (es ! (k - 1))))) (Some (Fin 1)))"
proof (cases k)
  case 0
  with assms show ?thesis
    by (cases es) (simp_all add: pct_change_def shift1_def)
next
  case (Suc j)
  with assms have "shift1 (map (\<lambda>e. Some (Fin e)) es) ! k = Some (Fin (es ! j))"
    by (simp add: shift1_nth_Suc)
  with assms Suc show ?thesis
    by (simp add: pct_change_def)
qed

lemma pct_change_nth_finite:
  assumes "k < length es" and "0 < k" and "es ! (k - 1) \<noteq> 0"
  shows "pct_change es ! k = Some (Fin (es ! k / es ! (k - 1) - 1))"
  using assms by (simp add: pct_change_nth)

subsection \<open>Evaluation of the second example\<close>

lemma flat_xy_frame:
  "use_log_price_spread cfg \<Longrightarrow> xy_frame cfg flat_a flat_b = flat_rows"
  by (simp add: xy_frame_def flat_a_def flat_b_def flat_rows_def
      index_intersection_def loc_close_def x_col_def y_col_def Let_def
      List.map_filter_simps)

lemma flat_hedge:
  "hedge_fit ols 2 (map xy_x flat_rows) (map xy_y flat_rows) =
     [Inr (None, None), Inr (None, None), Inr (Some 1, Some 0), Inr (Some (- 1), Some 2),
      Inr (Some 2, Some (- 4))]"
  by (simp add: hedge_fit_def flat_rows_def iloc_def ols_def Let_def)

lemma flat_beta:
  "hedge_window cfg = 2 \<Longrightarrow>
   beta_col ols cfg flat_rows = [None, None, Some 1, Some (- 1), Some 2]"
  using flat_hedge by (simp add: beta_col_def)

lemma flat_alpha:
  "hedge_window cfg = 2 \<Longrightarrow>
   alpha_col ols cfg flat_rows = [None, None, Some 0, Some 2, Some (- 4)]"
  using flat_hedge by (simp add: alpha_col_def)

lemma flat_spread:
  "hedge_window cfg = 2 \<Longrightarrow> use_log_price_spread cfg \<Longrightarrow>
   spread_col ols cfg flat_rows =
     [None, None, Some (Fin (- 2)), Some (Fin 3), Some (Fin 0)]"
  by (simp add: spread_col_def flat_beta flat_alpha Let_def)
     (simp add: flat_rows_def)

lemma sqrt_9_4: "sqrt (9 / 4) = 3 / 2"
  by (rule real_sqrt_unique) (simp_all add: power2_eq_square)

lemma flat_mean:
  "hedge_window cfg = 2 \<Longrightarrow> spread_window cfg = 2 \<Longrightarrow> use_log_price_spread cfg \<Longrightarrow>
   spread_mean_col ols cfg flat_rows = [None, None, None, Some (1 / 2), Some (3 / 2)]"
  by (simp add: spread_mean_col_def flat_spread)
     (simp add: rolling_def iloc_def mean_def)

lemma flat_std:
  "hedge_window cfg = 2 \<Longrightarrow> spread_window cfg = 2 \<Longrightarrow> use_log_price_spread cfg \<Longrightarrow>
   spread_std_col ols cfg flat_rows = [None, None, None, Some (5 / 2), Some (3 / 2)]"
  by (simp add: spread_std_col_def flat_spread)
     (simp add: rolling_def iloc_def pop_std_def Let_def power2_eq_square sqrt_25_4 sqrt_9_4)

lemma flat_length: "length flat_rows = 5"
  by (simp add: flat_rows_def)

lemma flat_z:
  "hedge_window cfg = 2 \<Longrightarrow> spread_window cfg = 2 \<Longrightarrow> use_log_price_spread cfg \<Longrightarrow>
   z_col ols cfg flat_rows = [None, None, None, Some (Fin 1), Some (Fin (- 1))]"
  by (simp add: z_col_def flat_spread flat_mean flat_std flat_length upt_0_5)

lemma flat_signal_rows:
  assumes "hedge_window cfg = 2" "spread_window cfg = 2" "use_log_price_spread cfg"
  shows "signal_row ols cfg flat_rows 0 = None"
    and "signal_row ols cfg flat_rows (Suc 0) = None"
    and "signal_row ols cfg flat_rows 2 = None"
    and "signal_row ols cfg flat_rows 3 = Some (flat_signal ! 0)"
    and "signal_row ols cfg flat_rows 4 = Some (flat_signal ! 1)"
  using assms
  by (simp_all add: signal_row_def flat_beta flat_alpha flat_spread flat_mean flat_std flat_z)
     (simp_all add: flat_rows_def flat_signal_def)

lemma flat_signal_frame:
  assumes "hedge_window cfg = 2" "spread_window cfg = 2" "use_log_price_spread cfg"
  shows "signal_frame ols cfg flat_rows = flat_signal"
  by (simp add: signal_frame_def flat_length upt_0_5 List.map_filter_simps
        flat_signal_rows [OF assms])
     (simp add: flat_signal_def)

lemma flat_prepare_data:
  assumes "hedge_window cfg = 2" "spread_window cfg = 2" "use_log_price_spread cfg"
  shows "prepare_data ols cfg flat_a flat_b = Inr flat_signal"
proof -
  have "flat_rows \<noteq> []" by (simp add: flat_rows_def)
  then show ?thesis
    using assms
    by (simp add: prepare_data_def flat_xy_frame flat_signal_frame flat_hedge)
qed

text \<open>
  The loop on the second example, for any cost and notional: the bar labelled 13 opens a
  short spread and pays the cost; the legs cancel at the entry prices, which are also the
  prices of the bar labelled 14, so both bars record the capital after the entry cost.
\<close>

lemma flat_backtest_open:
  assumes "z_entry cfg = 1 / 2" and "z_exit cfg = 2 / 10" and "stop_z cfg = None"
      and "max_hold_bars cfg = None" and "beta_neutral cfg"
  shows "backtest cfg flat_signal =
     Inr \<lparr> capital = initial_capital cfg - trade_cost cfg, position = - 1,
           entry_idx = Some 13, sh_a = - (notional_per_leg cfg / exp 2),
           sh_b = notional_per_leg cfg / exp 3,
           equity_series = [initial_capital cfg - trade_cost cfg,
                            initial_capital cfg - trade_cost cfg],
           trade_count = 1 \<rparr>"
  using assms
  by (simp add: backtest_def flat_signal_def bar_def held_too_long_def entry_block_def
      entry_signal_def init_state_def Let_def equity_of_def mtm_def exit_triggered_def
      stop_out_def realize_def)

lemma flat_backtest_hold:
  assumes "z_entry cfg = 1 / 2" and "z_exit cfg = 2 / 10" and "stop_z cfg = None"
      and "max_hold_bars cfg = Some 1" and "beta_neutral cfg"
  shows "backtest cfg flat_signal =
     Inr \<lparr> capital = initial_capital cfg - trade_cost cfg - trade_cost cfg, position = 0,
           entry_idx = None, sh_a = 0, sh_b = 0,
           equity_series = [initial_capital cfg - trade_cost cfg,
                            initial_capital cfg - trade_cost cfg],
           trade_count = 1 \<rparr>"
  using assms
  by (simp add: backtest_def flat_signal_def bar_def held_too_long_def entry_block_def
      entry_signal_def init_state_def Let_def equity_of_def mtm_def exit_triggered_def
      stop_out_def realize_def)

subsection \<open>\<open>run\<close> on the second example\<close>

lemma flat_results_frame:
  "e \<noteq> 0 \<Longrightarrow> results_frame (map ts flat_signal) [e, e] = flat_results e"
  by (simp add: flat_signal_def flat_results_def results_frame_def pct_change_def shift1_def)

lemma flat_run_open:
  assumes "hedge_window cfg = 2" "spread_window cfg = 2" "use_log_price_spread cfg"
      and "z_entry cfg = 1 / 2" and "z_exit cfg = 2 / 10" and "stop_z cfg = None"
      and "max_hold_bars cfg = None" and "beta_neutral cfg"
      and "initial_capital cfg - trade_cost cfg \<noteq> 0"
  shows "run ols cfg flat_a flat_b =
           Inr (flat_results (initial_capital cfg - trade_cost cfg), 1)"
  using assms(9)
  by (simp add: run_def flat_prepare_data [OF assms(1-3)] flat_backtest_open [OF assms(4-8)]
      flat_results_frame)

lemma flat_run_hold:
  assumes "hedge_window cfg = 2" "spread_window cfg = 2" "use_log_price_spread cfg"
      and "z_entry cfg = 1 / 2" and "z_exit cfg = 2 / 10" and "stop_z cfg = None"
      and "max_hold_bars cfg = Some 1" and "beta_neutral cfg"
      and "initial_capital cfg - trade_cost cfg \<noteq> 0"
  shows "run ols cfg flat_a flat_b =
           Inr (flat_results (initial_capital cfg - trade_cost cfg), 1)"
  using assms(9)
  by (simp add: run_def flat_prepare_data [OF assms(1-3)] flat_backtest_hold [OF assms(4-8)]
      flat_results_frame)

lemmas flat_cfg_defs = trade_cfg_def neg_cfg_def hold_cfg_def default_config_def trade_cost_def

lemma run_trade_free:
  "run ols (trade_cfg\<lparr>cost_bps := 0\<rparr>) flat_a flat_b = Inr (flat_results 1000000, 1)"
  using flat_run_open [of "trade_cfg\<lparr>cost_bps := 0\<rparr>"] by (simp add: flat_cfg_defs)

lemma run_trade_cost:
  "run ols (trade_cfg\<lparr>cost_bps := 10\<rparr>) flat_a flat_b = Inr (flat_results 999800, 1)"
  using flat_run_open [of "trade_cfg\<lparr>cost_bps := 10\<rparr>"] by (simp add: flat_cfg_defs)

lemma run_neg_free:
  "run ols (neg_cfg\<lparr>cost_bps := 0\<rparr>) flat_a flat_b = Inr (flat_results 1000000, 1)"
  using flat_run_open [of "neg_cfg\<lparr>cost_bps := 0\<rparr>"] by (simp add: flat_cfg_defs)

lemma run_neg_cost:
  "run ols (neg_cfg\<lparr>cost_bps := 10\<rparr>) flat_a flat_b = Inr (flat_results 1000200, 1)"
  using flat_run_open [of "neg_cfg\<lparr>cost_bps := 10\<rparr>"] by (simp add: flat_cfg_defs)

lemma run_hold:
  "run ols hold_cfg flat_a flat_b = Inr (flat_results 999800, 1)"
  using flat_run_hold [of hold_cfg] by (simp add: flat_cfg_defs)

lemma backtest_hold:
  "backtest hold_cfg flat_signal =
     Inr \<lparr> capital = 999600, position = 0, entry_idx = None, sh_a = 0, sh_b = 0,
           equity_series = [999800, 999800], trade_count = 1 \<rparr>"
  using flat_backtest_hold [of hold_cfg] by (simp add: flat_cfg_defs)

lemma backtest_trade_cost:
  "backtest (trade_cfg\<lparr>cost_bps := 10\<rparr>) flat_signal =
     Inr \<lparr> capital = 999800, position = - 1, entry_idx = Some 13,
           sh_a = - (100000 / exp 2), sh_b = 100000 / exp 3,
           equity_series = [999800, 999800], trade_count = 1 \<rparr>"
  using flat_backtest_open [of "trade_cfg\<lparr>cost_bps := 10\<rparr>"] by (simp add: flat_cfg_defs)

subsection \<open>Trade count of \<open>run\<close>\<close>

text \<open>
  Claim C9. When \<open>run\<close> returns, the trade count it returns is the number of bars of the
  prepared frame on which the entry block opened a position from flat: each entry adds
  one, an exit adds nothing (\<open>bar_trade_count\<close>), and an entry still open at the end of
  the frame is counted.
\<close>

theorem trade_count_entries:
  assumes "run polyfit cfg df_a df_b = Inr (results, n)"
  shows "\<exists>df st. prepare_data polyfit cfg df_a df_b = Inr df
               \<and> backtest cfg df = Inr st
               \<and> n = trade_count st
               \<and> n = int (entries cfg (map ts df) (init_state cfg) df)"
proof -
  from assms obtain df st where p: "prepare_data polyfit cfg df_a df_b = Inr df"
    and b: "backtest cfg df = Inr st" and n: "n = trade_count st"
    by (auto simp: run_def split: sum.splits)
  from backtest_trade_count [OF b] p b n show ?thesis by simp
qed

text \<open>
  On the second example with at most one bar held, the bar labelled 13 enters and the
  bar labelled 14 exits: one round trip, counted once. Without the limit the position is
  still open when the frame ends, and is counted.
\<close>

theorem trade_count_entries_witness:
  "run ols hold_cfg flat_a flat_b = Inr (flat_results 999800, 1)
   \<and> backtest hold_cfg flat_signal =
       Inr \<lparr> capital = 999600, position = 0, entry_idx = None, sh_a = 0, sh_b = 0,
             equity_series = [999800, 999800], trade_count = 1 \<rparr>
   \<and> entries hold_cfg (map ts flat_signal) (init_state hold_cfg) flat_signal = 1
   \<and> run ols (trade_cfg\<lparr>cost_bps := 10\<rparr>) flat_a flat_b = Inr (flat_results 999800, 1)
   \<and> backtest (trade_cfg\<lparr>cost_bps := 10\<rparr>) flat_signal =
       Inr \<lparr> capital = 999800, position = - 1, entry_idx = Some 13,
             sh_a = - (100000 / exp 2), sh_b = 100000 / exp 3,
             equity_series = [999800, 999800], trade_count = 1 \<rparr>
   \<and> entries (trade_cfg\<lparr>cost_bps := 10\<rparr>) (map ts flat_signal)
         (init_state (trade_cfg\<lparr>cost_bps := 10\<rparr>)) flat_signal = 1"
proof -
  have p1: "prepare_data ols hold_cfg flat_a flat_b = Inr flat_signal"
    by (rule flat_prepare_data) (simp_all add: flat_cfg_defs)
  have p2: "prepare_data ols (trade_cfg\<lparr>cost_bps := 10\<rparr>) flat_a flat_b = Inr flat_signal"
    by (rule flat_prepare_data) (simp_all add: flat_cfg_defs)
  from trade_count_entries [OF run_hold] p1
  have e1: "entries hold_cfg (map ts flat_signal) (init_state hold_cfg) flat_signal = 1"
    by auto
  from trade_count_entries [OF run_trade_cost] p2
  have e2: "entries (trade_cfg\<lparr>cost_bps := 10\<rparr>) (map ts flat_signal)
         (init_state (trade_cfg\<lparr>cost_bps := 10\<rparr>)) flat_signal = 1"
    by auto
  from run_hold backtest_hold e1 run_trade_cost backtest_trade_cost e2 show ?thesis
    by blast
qed

subsection \<open>Cost monotonicity of \<open>run\<close>\<close>

lemma xy_frame_cost [simp]:
  "xy_frame (cfg\<lparr>cost_bps := c\<rparr>) df_a df_b = xy_frame cfg df_a df_b"
  by (simp add: xy_frame_def x_col_def y_col_def)

lemma beta_col_cost [simp]:
  "beta_col polyfit (cfg\<lparr>cost_bps := c\<rparr>) rows = beta_col polyfit cfg rows"
  by (simp add: beta_col_def)

lemma alpha_col_cost [simp]:
  "alpha_col polyfit (cfg\<lparr>cost_bps := c\<rparr>) rows = alpha_col polyfit cfg rows"
  by (simp add: alpha_col_def)

lemma spread_col_cost [simp]:
  "spread_col polyfit (cfg\<lparr>cost_bps := c\<rparr>) rows = spread_col polyfit cfg rows"
  by (simp add: spread_col_def)

lemma spread_mean_col_cost [simp]:
  "spread_mean_col polyfit (cfg\<lparr>cost_bps := c\<rparr>) rows = spread_mean_col polyfit cfg rows"
  by (simp add: spread_mean_col_def)

lemma spread_std_col_cost [simp]:
  "spread_std_col polyfit (cfg\<lparr>cost_bps := c\<rparr>) rows = spread_std_col polyfit cfg rows"
  by (simp add: spread_std_col_def)

lemma z_col_cost [simp]:
  "z_col polyfit (cfg\<lparr>cost_bps := c\<rparr>) rows = z_col polyfit cfg rows"
  by (simp add: z_col_def)

lemma signal_row_cost [simp]:
  "signal_row polyfit (cfg\<lparr>cost_bps := c\<rparr>) rows = signal_row polyfit cfg rows"
  by (rule ext) (simp add: signal_row_def)

lemma signal_frame_cost [simp]:
  "signal_frame polyfit (cfg\<lparr>cost_bps := c\<rparr>) rows = signal_frame polyfit cfg rows"
  by (simp add: signal_frame_def)

text \<open>\<open>prepare_data\<close> does not read \<open>cost_bps\<close>.\<close>

lemma prepare_data_cost:
  "prepare_data polyfit (cfg\<lparr>cost_bps := c\<rparr>) df_a df_b = prepare_data polyfit cfg df_a df_b"
  by (simp add: prepare_data_def Let_def split: option.splits)

text \<open>
  Claim C6, as the code has it. For a non-negative \<open>notional_per_leg\<close>, the same input
  series and the same other parameters: when \<open>run\<close> returns with the smaller \<open>cost_bps\<close>,
  it returns with the larger one too, with the same trade count and the same labels, and
  with an equity that is not larger at any bar, in particular at the last one.
\<close>

theorem cost_monotone:
  assumes "0 \<le> notional_per_leg cfg" and "c \<le> c'"
      and "run polyfit (cfg\<lparr>cost_bps := c\<rparr>) df_a df_b = Inr (lo, n)"
  shows "\<exists>hi. run polyfit (cfg\<lparr>cost_bps := c'\<rparr>) df_a df_b = Inr (hi, n)
            \<and> map r_ts hi = map r_ts lo
            \<and> (\<forall>k < length lo. equity (hi ! k) \<le> equity (lo ! k))
            \<and> (lo \<noteq> [] \<longrightarrow> equity (last hi) \<le> equity (last lo))"
proof -
  from assms(3) obtain df st where p: "prepare_data polyfit cfg df_a df_b = Inr df"
    and b: "backtest (cfg\<lparr>cost_bps := c\<rparr>) df = Inr st"
    and lo: "lo = results_frame (map ts df) (equity_series st)" and n: "n = trade_count st"
    by (auto simp: run_def prepare_data_cost split: sum.splits)
  from backtest_cost_monotone [OF assms(1,2) b] obtain st' where
    b': "backtest (cfg\<lparr>cost_bps := c'\<rparr>) df = Inr st'"
    and l': "length (equity_series st') = length df"
    and l: "length (equity_series st) = length df"
    and le: "\<forall>k < length df. equity_series st' ! k \<le> equity_series st ! k"
    and tc: "trade_count st' = trade_count st"
    by blast
  let ?hi = "results_frame (map ts df) (equity_series st')"
  have r: "run polyfit (cfg\<lparr>cost_bps := c'\<rparr>) df_a df_b = Inr (?hi, n)"
    using p b' tc n by (simp add: run_def prepare_data_cost)
  have t: "map r_ts ?hi = map ts df" "map r_ts lo = map ts df"
    unfolding lo using l l' by (simp_all add: results_frame_ts)
  have e: "map equity ?hi = equity_series st'" "map equity lo = equity_series st"
    unfolding lo using l l' by (simp_all add: results_frame_equity)
  have len: "length ?hi = length df" "length lo = length df"
    using t [THEN arg_cong, of length] by simp_all
  have k: "equity (?hi ! k) \<le> equity (lo ! k)" if "k < length df" for k
  proof -
    have "equity (?hi ! k) = map equity ?hi ! k" "equity (lo ! k) = map equity lo ! k"
      using that len by simp_all
    with le that e show ?thesis by simp
  qed
  have "lo \<noteq> [] \<longrightarrow> equity (last ?hi) \<le> equity (last lo)"
  proof
    assume ne: "lo \<noteq> []"
    then have "?hi \<noteq> []" using len by auto
    with ne have "last ?hi = ?hi ! (length df - 1)" "last lo = lo ! (length df - 1)"
      using len by (simp_all add: last_conv_nth)
    moreover have "length df - 1 < length df" using ne len by (cases df) auto
    ultimately show "equity (last ?hi) \<le> equity (last lo)"
      using k by simp
  qed
  with r t k len show ?thesis by auto
qed

theorem cost_monotone_witness:
  "0 \<le> notional_per_leg trade_cfg \<and> (0 :: real) \<le> 10
   \<and> run ols (trade_cfg\<lparr>cost_bps := 0\<rparr>) flat_a flat_b = Inr (flat_results 1000000, 1)
   \<and> run ols (trade_cfg\<lparr>cost_bps := 10\<rparr>) flat_a flat_b = Inr (flat_results 999800, 1)
   \<and> equity (last (flat_results 999800)) \<le> equity (last (flat_results 1000000))"
proof -
  have h1: "0 \<le> notional_per_leg trade_cfg"
    by (simp add: flat_cfg_defs)
  have h2: "(0 :: real) \<le> 10"
    by simp
  have ne: "flat_results 1000000 \<noteq> []"
    by (simp add: flat_results_def)
  from cost_monotone [OF h1 h2 run_trade_free] run_trade_cost ne
  have "equity (last (flat_results 999800)) \<le> equity (last (flat_results 1000000))"
    by auto
  with h1 h2 run_trade_free run_trade_cost show ?thesis by blast
qed

text \<open>
  The claim has no condition on \<open>notional_per_leg\<close>. With a notional of -100000 the cost
  of a trade, \<open>2 * notional_per_leg * (cost_bps / 10000)\<close>, is negative for a positive
  \<open>cost_bps\<close>: on the second example the final equity is 1000000 at a cost of 0 bps and
  1000200 at a cost of 10 bps.
\<close>

theorem cost_monotone_counterexample:
  "notional_per_leg neg_cfg = - 100000
   \<and> run ols (neg_cfg\<lparr>cost_bps := 0\<rparr>) flat_a flat_b = Inr (flat_results 1000000, 1)
   \<and> run ols (neg_cfg\<lparr>cost_bps := 10\<rparr>) flat_a flat_b = Inr (flat_results 1000200, 1)
   \<and> equity (last (flat_results 1000000)) = 1000000
   \<and> equity (last (flat_results 1000200)) = 1000200
   \<and> equity (last (flat_results 1000000)) < equity (last (flat_results 1000200))"
  by (simp add: run_neg_free run_neg_cost)
     (simp add: flat_results_def flat_cfg_defs)

subsection \<open>The caller's frames are not modified\<close>

lemma setitem_length [simp]: "length (setitem h p c vs) = length h"
  by (simp add: setitem_def)

lemma setitem_take [simp]: "n \<le> p \<Longrightarrow> take n (setitem h p c vs) = take n h"
  by (simp add: setitem_def)

lemma alloc_fst [simp]: "fst (alloc h f) = h @ [f]"
  by (simp add: alloc_def)

lemma alloc_snd [simp]: "snd (alloc h f) = length h"
  by (simp add: alloc_def)

lemma prepare_data_h_frame:
  assumes "n \<le> length h"
  shows "take n (fst (prepare_data_h polyfit self h)) = take n h
       \<and> length h \<le> length (fst (prepare_data_h polyfit self h))"
  using assms
  by (simp add: prepare_data_h_def Let_def alloc_def split: option.splits)

lemma run_h_frame:
  assumes "n \<le> length h"
  shows "take n (fst (run_h polyfit self h)) = take n h
       \<and> length h \<le> length (fst (run_h polyfit self h))"
proof -
  obtain h1 r where p: "prepare_data_h polyfit self h = (h1, r)"
    by (cases "prepare_data_h polyfit self h")
  with prepare_data_h_frame [OF assms, of polyfit self]
  have h1: "take n h1 = take n h" "length h \<le> length h1" by simp_all
  then have "n \<le> length h1" using assms by simp
  with h1 p show ?thesis
    by (auto simp: run_h_def Let_def alloc_def split: sum.splits)
qed

lemma calls_frame:
  assumes "n \<le> length h"
  shows "take n (calls polyfit self h ms) = take n h"
  using assms
proof (induction ms arbitrary: h)
  case Nil
  then show ?case by simp
next
  case (Cons m ms)
  show ?case
  proof (cases m)
    case PrepareData
    from prepare_data_h_frame [OF Cons.prems, of polyfit self]
    have s: "take n (fst (prepare_data_h polyfit self h)) = take n h"
        "n \<le> length (fst (prepare_data_h polyfit self h))"
      using Cons.prems by simp_all
    from Cons.IH [OF s(2)] s(1) PrepareData show ?thesis by simp
  next
    case Run
    from run_h_frame [OF Cons.prems, of polyfit self]
    have s: "take n (fst (run_h polyfit self h)) = take n h"
        "n \<le> length (fst (run_h polyfit self h))"
      using Cons.prems by simp_all
    from Cons.IH [OF s(2)] s(1) Run show ?thesis by simp
  qed
qed

lemma take_nth_eq: "take n xs = take n ys \<Longrightarrow> p < n \<Longrightarrow> xs ! p = ys ! p"
  by (metis nth_take)

text \<open>
  Claim C10. The constructor stores fresh copies, and every write of \<open>prepare_data\<close> and
  \<open>run\<close> goes to a frame the method itself has allocated. So after constructing the object
  and any sequence of calls, every frame that existed before the constructor ran, the
  caller's \<open>df_a\<close> and \<open>df_b\<close> among them, is what it was; so are the object's own copies.
\<close>

theorem inputs_unchanged:
  assumes "df_a < length h" and "df_b < length h"
      and "Backtester_init h df_a df_b cfg = (h0, self)"
  shows "calls polyfit self h0 ms ! df_a = h ! df_a
       \<and> calls polyfit self h0 ms ! df_b = h ! df_b
       \<and> take (length h) (calls polyfit self h0 ms) = h
       \<and> take (length h0) (calls polyfit self h0 ms) = h0
       \<and> length h \<le> bt_df_a self \<and> length h \<le> bt_df_b self
       \<and> h0 ! bt_df_a self = h ! df_a \<and> h0 ! bt_df_b self = h ! df_b"
proof -
  from assms have h0: "h0 = h @ [h ! df_a, h ! df_b]"
    and self: "self = \<lparr> bt_df_a = length h, bt_df_b = Suc (length h), bt_cfg = cfg \<rparr>"
    by (auto simp: Backtester_init_def alloc_def Let_def nth_append)
  have t: "take (length h) (calls polyfit self h0 ms) = h"
    using calls_frame [of "length h" h0 polyfit self ms] by (simp add: h0)
  have t0: "take (length h0) (calls polyfit self h0 ms) = h0"
    using calls_frame [of "length h0" h0 polyfit self ms] by simp
  have a: "calls polyfit self h0 ms ! df_a = h ! df_a"
    using take_nth_eq [of "length h" "calls polyfit self h0 ms" h df_a] t assms(1) by simp
  have b: "calls polyfit self h0 ms ! df_b = h ! df_b"
    using take_nth_eq [of "length h" "calls polyfit self h0 ms" h df_b] t assms(2) by simp
  from a b t t0 show ?thesis
    by (simp add: self h0 nth_append)
qed

text \<open>The frame \<open>prepare_data\<close> returns holds the rows of the value-level function.\<close>

lemma prepare_data_h_value:
  assumes "has_col (h ! bt_df_a self) ''close''" and "has_col (h ! bt_df_b self) ''close''"
      and "prepare_data_h polyfit self h = (h', r)"
  shows "(case r of
            Inl e \<Rightarrow>
              prepare_data polyfit (bt_cfg self) (series_of (h ! bt_df_a self))
                (series_of (h ! bt_df_b self)) = Inl e
          | Inr d \<Rightarrow>
              (\<exists>df. prepare_data polyfit (bt_cfg self) (series_of (h ! bt_df_a self))
                       (series_of (h ! bt_df_b self)) = Inr df
                    \<and> h' ! d = frame_of_signal (bt_cfg self) df))"
  using assms
  by (auto simp: prepare_data_h_def prepare_data_def Let_def alloc_def nth_append
      split: if_splits option.splits)

theorem inputs_unchanged_witness:
  "0 < length ex_store \<and> 1 < length ex_store
   \<and> Backtester_init ex_store 0 1 win_cfg =
       (ex_store @ [ex_store ! 0, ex_store ! 1],
        \<lparr> bt_df_a = 2, bt_df_b = 3, bt_cfg = win_cfg \<rparr>)
   \<and> calls ols \<lparr> bt_df_a = 2, bt_df_b = 3, bt_cfg = win_cfg \<rparr>
        (ex_store @ [ex_store ! 0, ex_store ! 1]) [PrepareData, Run, Run] ! 0 = ex_store ! 0
   \<and> calls ols \<lparr> bt_df_a = 2, bt_df_b = 3, bt_cfg = win_cfg \<rparr>
        (ex_store @ [ex_store ! 0, ex_store ! 1]) [PrepareData, Run, Run] ! 1 = ex_store ! 1"
proof -
  have h1: "0 < length ex_store" by (simp add: ex_store_def)
  have h2: "1 < length ex_store" by (simp add: ex_store_def)
  have h3: "Backtester_init ex_store 0 1 win_cfg =
       (ex_store @ [ex_store ! 0, ex_store ! 1],
        \<lparr> bt_df_a = 2, bt_df_b = 3, bt_cfg = win_cfg \<rparr>)"
    by (simp add: Backtester_init_def alloc_def Let_def ex_store_def)
  from inputs_unchanged [OF h1 h2 h3, of ols "[PrepareData, Run, Run]"] h1 h2 h3
  show ?thesis by blast
qed


subsection \<open>No lookahead, from the input series\<close>

lemma shift1_append:
  "xs \<noteq> [] \<Longrightarrow> shift1 (xs @ ys) = shift1 xs @ (if ys = [] then [] else last xs # butlast ys)"
  by (auto simp: shift1_def butlast_append)

lemma x_col_prefix:
  "\<exists>zs. x_col cfg (pb @ rb) = x_col cfg pb @ zs \<and> length zs = length rb"
proof (cases "pb = []")
  case True
  then show ?thesis by (simp add: x_col_def shift1_def)
next
  case False
  then show ?thesis
    by (auto simp: x_col_def shift1_append)
qed

lemma y_col_prefix:
  "\<exists>zs. y_col cfg (pa @ ra) = y_col cfg pa @ zs \<and> length zs = length ra"
proof (cases "pa = []")
  case True
  then show ?thesis by (simp add: y_col_def shift1_def)
next
  case False
  then show ?thesis
    by (auto simp: y_col_def shift1_append)
qed

lemma map_filter_cong_set:
  "(\<And>x. x \<in> set xs \<Longrightarrow> f x = g x) \<Longrightarrow> List.map_filter f xs = List.map_filter g xs"
  by (induction xs) (auto simp: List.map_filter_simps split: option.splits)

lemma loc_close_prefix:
  "t \<in> fst ` set p \<Longrightarrow> loc_close (p @ r) t = loc_close p t"
  by (auto simp: loc_close_def map_add_def map_of_eq_None_iff split: option.splits)

lemma index_intersection_prefix:
  assumes "set (map fst rb) \<inter> set (map fst pa) = {}"
  shows "\<exists>rest. index_intersection (pa @ ra) (pb @ rb) = index_intersection pa pb @ rest"
proof -
  have "filter (\<lambda>t. t \<in> set (map fst (pb @ rb))) (map fst pa) =
        filter (\<lambda>t. t \<in> set (map fst pb)) (map fst pa)"
    using assms by (intro filter_cong) auto
  then show ?thesis by (simp add: index_intersection_def)
qed

lemma index_intersection_subset:
  "set (index_intersection pa pb) \<subseteq> set (map fst pa) \<inter> set (map fst pb)"
  by (auto simp: index_intersection_def)

lemma xy_frame_prefix:
  assumes "set (map fst rb) \<inter> set (map fst pa) = {}"
  shows "\<exists>rest. xy_frame cfg (pa @ ra) (pb @ rb) = xy_frame cfg pa pb @ rest"
proof -
  let ?ip = "index_intersection pa pb"
  from index_intersection_prefix [OF assms] obtain ir where
    idx: "index_intersection (pa @ ra) (pb @ rb) = ?ip @ ir"
    by blast
  let ?PA = "map (loc_close (pa @ ra)) (?ip @ ir)" and ?PB = "map (loc_close (pb @ rb)) (?ip @ ir)"
  let ?PAp = "map (loc_close pa) ?ip" and ?PBp = "map (loc_close pb) ?ip"
  have pa: "?PA = ?PAp @ map (loc_close (pa @ ra)) ir"
    using index_intersection_subset [of pa pb] by (auto intro!: loc_close_prefix)
  have pb: "?PB = ?PBp @ map (loc_close (pb @ rb)) ir"
    using index_intersection_subset [of pa pb] by (auto intro!: loc_close_prefix)
  obtain xr where xs: "x_col cfg ?PB = x_col cfg ?PBp @ xr"
    unfolding pb using x_col_prefix by blast
  obtain yr where ys: "y_col cfg ?PA = y_col cfg ?PAp @ yr"
    unfolding pa using y_col_prefix by blast
  have lx: "length (x_col cfg ?PBp) = length ?ip"
    by (simp add: x_col_def shift1_def)
  have ly: "length (y_col cfg ?PAp) = length ?ip"
    by (simp add: y_col_def shift1_def)
  let ?g = "\<lambda>i. case (?PA ! i, ?PB ! i, x_col cfg ?PB ! i, y_col cfg ?PA ! i) of
                   (Some a, Some b, Some x, Some y) \<Rightarrow>
                     Some \<lparr> xy_ts = (?ip @ ir) ! i, xy_price_a = a, xy_price_b = b,
                            xy_x = x, xy_y = y \<rparr>
                 | _ \<Rightarrow> None"
  let ?gp = "\<lambda>i. case (?PAp ! i, ?PBp ! i, x_col cfg ?PBp ! i, y_col cfg ?PAp ! i) of
                   (Some a, Some b, Some x, Some y) \<Rightarrow>
                     Some \<lparr> xy_ts = ?ip ! i, xy_price_a = a, xy_price_b = b,
                            xy_x = x, xy_y = y \<rparr>
                 | _ \<Rightarrow> None"
  have same: "\<And>i. i \<in> set [0..<length ?ip] \<Longrightarrow> ?g i = ?gp i"
    unfolding xs ys unfolding pa pb
    using lx ly by (auto simp: nth_append split: option.splits)
  have "xy_frame cfg (pa @ ra) (pb @ rb) = List.map_filter ?g [0..<length (?ip @ ir)]"
    by (simp only: xy_frame_def idx Let_def)
  also have "[0..<length (?ip @ ir)] = [0..<length ?ip] @ [length ?ip..<length ?ip + length ir]"
    using upt_add_eq_append [of 0 "length ?ip" "length ir"] by simp
  also have "List.map_filter ?g ([0..<length ?ip] @ [length ?ip..<length ?ip + length ir]) =
      List.map_filter ?g [0..<length ?ip]
      @ List.map_filter ?g [length ?ip..<length ?ip + length ir]"
    by (rule map_filter_append)
  also have "List.map_filter ?g [0..<length ?ip] = List.map_filter ?gp [0..<length ?ip]"
    by (rule map_filter_cong_set) (rule same)
  also have "List.map_filter ?gp [0..<length ?ip] = xy_frame cfg pa pb"
    by (simp only: xy_frame_def Let_def)
  finally show ?thesis by blast
qed

text \<open>
  The same at the level of the inputs of \<open>prepare_data\<close>: two pairs of series with common
  initial segments \<open>pa\<close> and \<open>pb\<close> (later labels being new) give the same \<open>beta\<close> and
  \<open>alpha\<close> at every row up to and including the first row after the common segment.
\<close>

lemma no_lookahead_inputs:
  assumes "set (map fst rb) \<inter> set (map fst pa) = {}"
      and "set (map fst rb') \<inter> set (map fst pa) = {}"
      and "rows = xy_frame cfg (pa @ ra) (pb @ rb)"
      and "rows' = xy_frame cfg (pa @ ra') (pb @ rb')"
      and "i \<le> length (xy_frame cfg pa pb)" and "i < length rows" and "i < length rows'"
  shows "beta_col polyfit cfg rows ! i = beta_col polyfit cfg rows' ! i
       \<and> alpha_col polyfit cfg rows ! i = alpha_col polyfit cfg rows' ! i"
proof -
  from xy_frame_prefix [OF assms(1), of cfg ra pb] assms(3)
  obtain r where r: "rows = xy_frame cfg pa pb @ r" by blast
  from xy_frame_prefix [OF assms(2), of cfg ra' pb] assms(4)
  obtain r' where r': "rows' = xy_frame cfg pa pb @ r'" by blast
  have t: "take i rows = take i rows'"
    using assms(5) by (simp add: r r')
  from hedge_cols_prefix [OF t assms(6,7)] show ?thesis by simp
qed

end
